theory Spec2Isabelle
  imports Complex_Main "HOL-Library.AList"
begin

section \<open>Python values\<close>

text \<open>
  The adapter is dynamically typed: caller options, configuration entries and the decoded
  JSON body are arbitrary Python values. \<open>pyval\<close> covers the values JSON decoding and
  keyword arguments produce. A string is a sequence of code points below 256; a dict is an
  association list read with \<open>map_of\<close> (the first binding of a key is the dict's).
  A float is a rational (every finite float is one) or one of the three special values.
\<close>

datatype pyfloat = Finite rat | PosInf | NegInf | NaN

datatype pyval =
    PNone
  | PBool bool
  | PInt int
  | PFloat pyfloat
  | PStr string
  | PList "pyval list"
  | PDict "(string \<times> pyval) list"

text \<open>
  Exceptions, by class and by the data their message is built from; the rendered message
  text itself is not modelled. \<open>GiphyError_Client e\<close> is
  \<^verbatim>\<open>GiphyError(f"Client error: {e}")\<close> and \<open>GiphyError_Api m\<close> is
  \<^verbatim>\<open>GiphyError(f"Giphy API Error: {m}")\<close>: both are plain \<^verbatim>\<open>GiphyError\<close> instances.
  \<open>ClientResponseError status reason\<close> is aiohttp's error carrying an HTTP status,
  \<open>ClientError text\<close> any other \<^verbatim>\<open>aiohttp.ClientError\<close> that is no timeout (a transport
  fault without a status), \<open>AsyncioTimeoutError\<close> is an \<^verbatim>\<open>asyncio.TimeoutError\<close> that is no
  \<^verbatim>\<open>aiohttp.ClientError\<close>, and \<open>ServerTimeoutError text\<close> is aiohttp's timeout error, which
  is an instance of both \<^verbatim>\<open>asyncio.TimeoutError\<close> and \<^verbatim>\<open>aiohttp.ClientError\<close>.
\<close>

datatype exn =
    AsyncioTimeoutError
  | ServerTimeoutError string
  | ClientResponseError int string
  | ClientError string
  | GiphyError_Client exn
  | GiphyError_Api pyval
  | GiphyTimeout
  | GiphyValidation
  | ValueError
  | TypeError
  | AttributeError
  | OverflowError
  | KeyError
  | OtherException string

definition then_exn :: "exn + 'a \<Rightarrow> ('a \<Rightarrow> exn + 'b) \<Rightarrow> exn + 'b" where
  "then_exn m f = (case m of Inl e \<Rightarrow> Inl e | Inr x \<Rightarrow> f x)"

fun is_TimeoutError :: "exn \<Rightarrow> bool" where
  "is_TimeoutError AsyncioTimeoutError = True"
| "is_TimeoutError (ServerTimeoutError t) = True"
| "is_TimeoutError _ = False"

fun is_ClientResponseError :: "exn \<Rightarrow> bool" where
  "is_ClientResponseError (ClientResponseError s r) = True"
| "is_ClientResponseError _ = False"

fun is_ClientError :: "exn \<Rightarrow> bool" where
  "is_ClientError (ClientResponseError s r) = True"
| "is_ClientError (ClientError t) = True"
| "is_ClientError (ServerTimeoutError t) = True"
| "is_ClientError _ = False"

subsection \<open>Builtins on values\<close>

text \<open>\<^verbatim>\<open>d.get(key, default)\<close>: only a dict has the method.\<close>

fun py_get :: "pyval \<Rightarrow> string \<Rightarrow> pyval \<Rightarrow> exn + pyval" where
  "py_get (PDict kvs) k dflt = Inr (case map_of kvs k of Some v \<Rightarrow> v | None \<Rightarrow> dflt)"
| "py_get _ k dflt = Inl AttributeError"

text \<open>What a \<^verbatim>\<open>for\<close> loop iterates over: list elements, dict keys, the characters of a string.\<close>

fun py_iter :: "pyval \<Rightarrow> exn + pyval list" where
  "py_iter (PList xs) = Inr xs"
| "py_iter (PDict kvs) = Inr (map (\<lambda>kv. PStr (fst kv)) kvs)"
| "py_iter (PStr s) = Inr (map (\<lambda>c. PStr [c]) s)"
| "py_iter _ = Inl TypeError"

text \<open>\<^verbatim>\<open>v == k\<close> for an integer constant \<open>k\<close>.\<close>

fun py_eq_int :: "pyval \<Rightarrow> int \<Rightarrow> bool" where
  "py_eq_int (PInt n) k = (n = k)"
| "py_eq_int (PBool b) k = ((if b then 1 else 0) = k)"
| "py_eq_int (PFloat (Finite q)) k = (q = of_int k)"
| "py_eq_int _ k = False"

text \<open>\<^verbatim>\<open>k < x\<close> for an integer \<open>k\<close> and a float \<open>x\<close>.\<close>

fun int_less_float :: "int \<Rightarrow> pyfloat \<Rightarrow> bool" where
  "int_less_float k (Finite q) = (of_int k < q)"
| "int_less_float k PosInf = True"
| "int_less_float k NegInf = False"
| "int_less_float k NaN = False"

text \<open>\<^verbatim>\<open>min(x, 50)\<close>: the second argument replaces the first only when it is smaller.\<close>

fun py_min_50 :: "pyval \<Rightarrow> exn + pyval" where
  "py_min_50 (PInt n) = Inr (if 50 < n then PInt 50 else PInt n)"
| "py_min_50 (PBool b) = Inr (PBool b)"
| "py_min_50 (PFloat x) = Inr (if int_less_float 50 x then PInt 50 else PFloat x)"
| "py_min_50 _ = Inl TypeError"

definition is_space :: "char \<Rightarrow> bool" where
  "is_space c = ((of_char c :: nat) \<in> {9, 10, 11, 12, 13, 28, 29, 30, 31, 32, 133, 160})"

definition strip :: "string \<Rightarrow> string" where
  "strip s = rev (dropWhile is_space (rev (dropWhile is_space s)))"

text \<open>
  The white space \<^verbatim>\<open>int()\<close> skips around a number is narrower than that of
  \<^verbatim>\<open>str.strip()\<close>: the separators U+001C to U+001F are not skipped.
\<close>

definition is_int_space :: "char \<Rightarrow> bool" where
  "is_int_space c = ((of_char c :: nat) \<in> {9, 10, 11, 12, 13, 32, 133, 160})"

definition int_strip :: "string \<Rightarrow> string" where
  "int_strip s = rev (dropWhile is_int_space (rev (dropWhile is_int_space s)))"

definition is_digit :: "char \<Rightarrow> bool" where
  "is_digit c = (48 \<le> (of_char c :: nat) \<and> (of_char c :: nat) \<le> 57)"

text \<open>Digits with single underscores between them, as \<^verbatim>\<open>int()\<close> accepts them.\<close>

fun digit_groups :: "string \<Rightarrow> bool" where
  "digit_groups [] = False"
| "digit_groups [c] = is_digit c"
| "digit_groups (c # d # r) =
     (is_digit c \<and> (if d = CHR ''_'' then digit_groups r else digit_groups (d # r)))"

definition digits_value :: "string \<Rightarrow> int" where
  "digits_value ds = foldl (\<lambda>acc c. 10 * acc + (int (of_char c) - 48)) 0 ds"

definition int_max_str_digits :: nat where
  "int_max_str_digits = 4300"

definition parse_unsigned :: "string \<Rightarrow> exn + int" where
  "parse_unsigned body =
     (if \<not> digit_groups body then Inl ValueError
      else (let ds = filter (\<lambda>c. c \<noteq> CHR ''_'') body in
            if int_max_str_digits < length ds then Inl ValueError
            else Inr (digits_value ds)))"

fun parse_signed :: "string \<Rightarrow> exn + int" where
  "parse_signed [] = Inl ValueError"
| "parse_signed (c # r) =
     (if c = CHR ''-'' then then_exn (parse_unsigned r) (\<lambda>n. Inr (- n))
      else if c = CHR ''+'' then parse_unsigned r
      else parse_unsigned (c # r))"

text \<open>
  \<^verbatim>\<open>int(v)\<close>: an int is itself, a bool is 0 or 1, a float is truncated towards zero
  (NaN is a ValueError, an infinity an OverflowError), a string is parsed in base 10 after
  skipping the white space around it, anything else is a TypeError.
\<close>

fun py_int :: "pyval \<Rightarrow> exn + int" where
  "py_int (PInt n) = Inr n"
| "py_int (PBool b) = Inr (if b then 1 else 0)"
| "py_int (PFloat (Finite q)) = Inr (if 0 \<le> q then \<lfloor>q\<rfloor> else \<lceil>q\<rceil>)"
| "py_int (PFloat NaN) = Inl ValueError"
| "py_int (PFloat PosInf) = Inl OverflowError"
| "py_int (PFloat NegInf) = Inl OverflowError"
| "py_int (PStr s) = parse_signed (int_strip s)"
| "py_int _ = Inl TypeError"

text \<open>\<^verbatim>\<open>str(n)\<close> for a natural number, used by the count note.\<close>

function str_nat :: "nat \<Rightarrow> string" where
  "str_nat n =
     (if n < 10 then [''0123456789'' ! n]
      else str_nat (n div 10) @ [''0123456789'' ! (n mod 10)])"
  by pat_completeness auto
termination
  by (relation "measure id") auto

declare str_nat.simps [simp del]

section \<open>models.py\<close>

datatype ErrorType =
    TIMEOUT
  | CLIENT_ERROR
  | SERVER_ERROR
  | NETWORK_ERROR
  | VALIDATION_ERROR
  | UNKNOWN_ERROR

text \<open>
  The dataclasses check no field types, so a field holds whatever the transform put there:
  \<open>width\<close>, \<open>height\<close> and \<open>size'\<close> are results of \<^verbatim>\<open>int()\<close>, every other field is
  the upstream value as it came. Primed names are the source's names where they clash.
\<close>

record GifImage =
  url :: pyval
  width :: int
  height :: int
  size' :: int

record GifData =
  id' :: pyval
  title :: pyval
  url' :: pyval
  rating :: pyval
  created_at :: pyval
  tags :: pyval
  original :: GifImage
  preview :: GifImage
  thumbnail :: GifImage

record PaginationData =
  total' :: pyval
  count :: pyval
  offset :: pyval

datatype payload = Items "GifData list" | Single GifData

text \<open>
  The \<^verbatim>\<open>error\<close> dict of a failure. Its \<^verbatim>\<open>'message'\<close> entry is \<^verbatim>\<open>str(error)\<close>: the model
  keeps the exception that text is rendered from. The \<^verbatim>\<open>'timestamp'\<close> entry (a clock
  reading) is left out.
\<close>

record error_info =
  etype :: ErrorType
  message_of :: exn
  in_method :: string

record AdapterResponse =
  success :: bool
  data :: "payload option"
  pagination :: "PaginationData option"
  message :: string
  error :: "error_info option"

section \<open>utils.py\<close>

definition get_or :: "(string \<times> pyval) list \<Rightarrow> string \<Rightarrow> pyval \<Rightarrow> pyval" where
  "get_or params k dflt = (case map_of params k of Some v \<Rightarrow> v | None \<Rightarrow> dflt)"

fun limit_invalid :: "pyval \<Rightarrow> bool" where
  "limit_invalid (PInt n) = (n < 1 \<or> 50 < n)"
| "limit_invalid (PBool b) = ((if b then (1::int) else 0) < 1)"
| "limit_invalid _ = True"

fun offset_invalid :: "pyval \<Rightarrow> bool" where
  "offset_invalid (PInt n) = (n < 0)"
| "offset_invalid (PBool b) = False"
| "offset_invalid _ = True"

definition valid_ratings :: "string list" where
  "valid_ratings = [''g'', ''pg'', ''pg-13'', ''r'']"

text \<open>\<^verbatim>\<open>rating not in valid_ratings\<close>: a list or dict cannot be hashed.\<close>

fun rating_check :: "pyval \<Rightarrow> exn + unit" where
  "rating_check (PStr s) = (if s \<in> set valid_ratings then Inr () else Inl ValueError)"
| "rating_check (PList xs) = Inl TypeError"
| "rating_check (PDict kvs) = Inl TypeError"
| "rating_check _ = Inl ValueError"

definition validate_search_params :: "(string \<times> pyval) list \<Rightarrow> exn + unit" where
  "validate_search_params params =
     (let lim = get_or params ''limit'' (PInt 10);
          off = get_or params ''offset'' (PInt 0)
      in if limit_invalid lim then Inl ValueError
         else if offset_invalid off then Inl ValueError
         else rating_check (get_or params ''rating'' (PStr ''pg'')))"

section \<open>adapter.py\<close>

text \<open>
  The configuration entries the pipeline reads. \<open>timeout\<close> and
  \<open>max_concurrent_requests\<close> only parametrise the HTTP session.
\<close>

record config =
  api_key :: string
  cfg_limit :: pyval
  cfg_rating :: pyval
  cfg_lang :: pyval
  retry_attempts :: int
  retry_delay :: real

definition default_config :: "string \<Rightarrow> config" where
  "default_config key =
     \<lparr>api_key = key, cfg_limit = PInt 10, cfg_rating = PStr ''pg'', cfg_lang = PStr ''en'',
      retry_attempts = 3, retry_delay = 1\<rparr>"

definition base_url :: string where
  "base_url = ''https://api.giphy.com/v1/gifs''"

text \<open>
  What one HTTP round trip does: \<open>Raises e\<close> when \<^verbatim>\<open>session.get\<close> raises, otherwise a
  response with its status, its reason phrase and the result of \<^verbatim>\<open>response.json()\<close>
  (read only when the status is 200). The network is a function from the attempt number
  to that outcome. The effects of a call are the trace of its GETs and sleeps.
\<close>

datatype attempt_outcome =
    Raises exn
  | Response int string "exn + pyval"

datatype event =
    is_HttpGet: HttpGet string "(string \<times> pyval) list"
  | Sleep real

definition meta_field :: "pyval \<Rightarrow> string \<Rightarrow> pyval \<Rightarrow> exn + pyval" where
  "meta_field body k dflt = then_exn (py_get body ''meta'' (PDict [])) (\<lambda>m. py_get m k dflt)"

text \<open>The body of the \<^verbatim>\<open>try\<close> of one attempt.\<close>

definition attempt_body :: "attempt_outcome \<Rightarrow> exn + pyval" where
  "attempt_body out =
     (case out of
        Raises e \<Rightarrow> Inl e
      | Response status reason body \<Rightarrow>
          if status \<noteq> 200 then Inl (ClientResponseError status reason)
          else then_exn body (\<lambda>d.
               then_exn (meta_field d ''status'' PNone) (\<lambda>st.
               if \<not> py_eq_int st 200
               then then_exn (meta_field d ''msg'' (PStr ''Unknown error''))
                      (\<lambda>m. Inl (GiphyError_Api m))
               else Inr d)))"

text \<open>The three \<^verbatim>\<open>except\<close> clauses, in order: the value \<^verbatim>\<open>last_error\<close> receives.\<close>

definition caught :: "exn \<Rightarrow> exn" where
  "caught e =
     (if is_TimeoutError e then GiphyTimeout
      else if is_ClientError e then GiphyError_Client e
      else e)"

fun request_loop ::
  "config \<Rightarrow> (int \<Rightarrow> attempt_outcome) \<Rightarrow> string \<Rightarrow> (string \<times> pyval) list \<Rightarrow> int list
     \<Rightarrow> exn option \<Rightarrow> event list \<Rightarrow> (exn + pyval) \<times> event list" where
  "request_loop cfg net u params [] last_error tr =
     (case last_error of None \<Rightarrow> (Inl TypeError, tr) | Some e \<Rightarrow> (Inl e, tr))"
| "request_loop cfg net u params (attempt # rest) last_error tr =
     (case attempt_body (net attempt) of
        Inr d \<Rightarrow> (Inr d, tr @ [HttpGet u params])
      | Inl e \<Rightarrow>
          request_loop cfg net u params rest (Some (caught e))
            (if attempt < retry_attempts cfg
             then tr @ [HttpGet u params, Sleep (retry_delay cfg * of_int attempt)]
             else tr @ [HttpGet u params]))"

definition make_request ::
  "config \<Rightarrow> (int \<Rightarrow> attempt_outcome) \<Rightarrow> string \<Rightarrow> (string \<times> pyval) list
     \<Rightarrow> (exn + pyval) \<times> event list" where
  "make_request cfg net endpoint params =
     request_loop cfg net (base_url @ endpoint)
       (AList.update ''api_key'' (PStr (api_key cfg)) params)
       [1 .. retry_attempts cfg] None []"

text \<open>
  One \<^verbatim>\<open>GifImage(...)\<close> of the transform: the section is looked up anew for every field,
  left to right; \<open>with_size\<close> is false for the two images built without a size.
\<close>

definition image_field :: "pyval \<Rightarrow> string \<Rightarrow> string \<Rightarrow> pyval \<Rightarrow> exn + pyval" where
  "image_field images section k dflt =
     then_exn (py_get images section (PDict [])) (\<lambda>sec. py_get sec k dflt)"

definition make_image :: "pyval \<Rightarrow> string \<Rightarrow> bool \<Rightarrow> exn + GifImage" where
  "make_image images section with_size =
     then_exn (image_field images section ''url'' (PStr [])) (\<lambda>u.
     then_exn (then_exn (image_field images section ''width'' (PInt 0)) py_int) (\<lambda>w.
     then_exn (then_exn (image_field images section ''height'' (PInt 0)) py_int) (\<lambda>h.
     then_exn (if with_size
               then then_exn (image_field images section ''size'' (PInt 0)) py_int
               else Inr 0) (\<lambda>s.
     Inr \<lparr>url = u, width = w, height = h, size' = s\<rparr>))))"

text \<open>The body of the \<^verbatim>\<open>try\<close> inside the transform loop.\<close>

definition transform_gif :: "pyval \<Rightarrow> exn + GifData" where
  "transform_gif gif_data =
     then_exn (py_get gif_data ''images'' (PDict [])) (\<lambda>images.
     then_exn (py_get gif_data ''id'' (PStr [])) (\<lambda>i.
     then_exn (py_get gif_data ''title'' (PStr [])) (\<lambda>t.
     then_exn (py_get gif_data ''url'' (PStr [])) (\<lambda>u.
     then_exn (py_get gif_data ''rating'' (PStr [])) (\<lambda>r.
     then_exn (py_get gif_data ''import_datetime'' (PStr [])) (\<lambda>c.
     then_exn (py_get gif_data ''tags'' (PList [])) (\<lambda>ts.
     then_exn (make_image images ''original'' True) (\<lambda>orig.
     then_exn (make_image images ''fixed_height_small'' False) (\<lambda>prev.
     then_exn (make_image images ''fixed_height_small_still'' False) (\<lambda>thumb.
     Inr \<lparr>id' = i, title = t, url' = u, rating = r, created_at = c, tags = ts,
          original = orig, preview = prev, thumbnail = thumb\<rparr>))))))))))"

text \<open>The loop: a ValueError or KeyError skips the record, any other exception leaves.\<close>

fun transform_loop :: "pyval list \<Rightarrow> GifData list \<Rightarrow> exn + GifData list" where
  "transform_loop [] gifs = Inr gifs"
| "transform_loop (gif_data # rest) gifs =
     (case transform_gif gif_data of
        Inr gif \<Rightarrow> transform_loop rest (gifs @ [gif])
      | Inl e \<Rightarrow> if e = ValueError \<or> e = KeyError then transform_loop rest gifs else Inl e)"

definition transform_response :: "pyval \<Rightarrow> exn + AdapterResponse" where
  "transform_response giphy_response =
     then_exn (py_get giphy_response ''data'' (PList [])) (\<lambda>d.
     then_exn (py_iter d) (\<lambda>records.
     then_exn (transform_loop records []) (\<lambda>gifs.
     then_exn (py_get giphy_response ''pagination'' (PDict [])) (\<lambda>pagination_data.
     then_exn (py_get pagination_data ''total_count'' (PInt 0)) (\<lambda>t.
     then_exn (py_get pagination_data ''count'' (PInt 0)) (\<lambda>c.
     then_exn (py_get pagination_data ''offset'' (PInt 0)) (\<lambda>off.
     Inr \<lparr>success = True, data = Some (Items gifs),
          pagination = Some \<lparr>total' = t, count = c, offset = off\<rparr>,
          message = ''Found '' @ str_nat (length gifs) @ '' GIFs'',
          error = None\<rparr>)))))))"

fun error_type_of :: "exn \<Rightarrow> ErrorType" where
  "error_type_of GiphyTimeout = TIMEOUT"
| "error_type_of GiphyValidation = VALIDATION_ERROR"
| "error_type_of (ClientResponseError status reason) =
     (if 400 \<le> status \<and> status < 500 then CLIENT_ERROR
      else if 500 \<le> status \<and> status < 600 then SERVER_ERROR
      else UNKNOWN_ERROR)"
| "error_type_of (ClientError t) = NETWORK_ERROR"
| "error_type_of (ServerTimeoutError t) = NETWORK_ERROR"
| "error_type_of _ = UNKNOWN_ERROR"

definition handle_error :: "exn \<Rightarrow> string \<Rightarrow> AdapterResponse" where
  "handle_error e m =
     \<lparr>success = False, data = None, pagination = None, message = [],
      error = Some \<lparr>etype = error_type_of e, message_of = e, in_method = m\<rparr>\<rparr>"

text \<open>\<^verbatim>\<open>not query or not isinstance(query, str)\<close>.\<close>

fun query_rejected :: "pyval \<Rightarrow> bool" where
  "query_rejected (PStr s) = (s = [])"
| "query_rejected _ = True"

fun str_strip :: "pyval \<Rightarrow> pyval" where
  "str_strip (PStr s) = PStr (strip s)"
| "str_strip v = v"

definition search_params_of ::
  "config \<Rightarrow> pyval \<Rightarrow> (string \<times> pyval) list \<Rightarrow> exn + (string \<times> pyval) list" where
  "search_params_of cfg query options =
     then_exn (py_min_50 (get_or options ''limit'' (cfg_limit cfg))) (\<lambda>lim.
     Inr [(''q'', str_strip query),
          (''limit'', lim),
          (''offset'', get_or options ''offset'' (PInt 0)),
          (''rating'', get_or options ''rating'' (cfg_rating cfg)),
          (''lang'', get_or options ''lang'' (cfg_lang cfg))])"

definition search_gifs ::
  "config \<Rightarrow> (int \<Rightarrow> attempt_outcome) \<Rightarrow> pyval \<Rightarrow> (string \<times> pyval) list
     \<Rightarrow> (exn + AdapterResponse) \<times> event list" where
  "search_gifs cfg net query options =
     (if query_rejected query then (Inl GiphyValidation, [])
      else case search_params_of cfg query options of
        Inl e \<Rightarrow> (Inl e, [])
      | Inr search_params \<Rightarrow>
          (case validate_search_params search_params of
             Inl e \<Rightarrow> (Inl e, [])
           | Inr ok \<Rightarrow>
               (case make_request cfg net ''/search'' search_params of
                  (Inl e, tr) \<Rightarrow> (Inr (handle_error e ''search_gifs''), tr)
                | (Inr response_data, tr) \<Rightarrow>
                    (case transform_response response_data of
                       Inl e \<Rightarrow> (Inr (handle_error e ''search_gifs''), tr)
                     | Inr r \<Rightarrow> (Inr r, tr)))))"

text \<open>\<^verbatim>\<open>result.data\<close> as a condition, and the payload \<^verbatim>\<open>get_random_gif\<close> picks from it.\<close>

fun truthy :: "payload option \<Rightarrow> bool" where
  "truthy None = False"
| "truthy (Some (Items gs)) = (gs \<noteq> [])"
| "truthy (Some (Single g)) = True"

fun first_of :: "payload option \<Rightarrow> payload option" where
  "first_of (Some (Items (g # gs))) = Some (Single g)"
| "first_of p = p"

definition get_random_gif ::
  "config \<Rightarrow> (int \<Rightarrow> attempt_outcome) \<Rightarrow> pyval \<Rightarrow> (string \<times> pyval) list
     \<Rightarrow> (exn + AdapterResponse) \<times> event list" where
  "get_random_gif cfg net query options =
     (let search_options =
            AList.update ''offset'' (PInt 0) (AList.update ''limit'' (PInt 1) options)
      in case search_gifs cfg net query search_options of
           (Inl e, tr) \<Rightarrow> (Inl e, tr)
         | (Inr result, tr) \<Rightarrow>
             if success result \<and> truthy (data result)
             then (Inr \<lparr>success = True, data = first_of (data result), pagination = None,
                        message = ''GIF found'', error = None\<rparr>, tr)
             else (Inr \<lparr>success = True, data = None, pagination = None,
                        message = ''No GIF found for query'', error = None\<rparr>, tr))"

section \<open>Concrete inputs\<close>

definition net_refused :: "int \<Rightarrow> attempt_outcome" where
  "net_refused a =
     Raises (ClientError (if a = 1 then ''first'' else if a = 2 then ''second'' else ''third''))"

definition net_status :: "int \<Rightarrow> int \<Rightarrow> attempt_outcome" where
  "net_status s a = Response s ''reason'' (Inr PNone)"

definition net_api_error :: "int \<Rightarrow> attempt_outcome" where
  "net_api_error a =
     Response 200 ''OK''
       (Inr (PDict [(''data'', PList []),
                    (''meta'', PDict [(''status'', PInt 429),
                                      (''msg'', PStr ''Too Many Requests'')])]))"

definition original_section :: "pyval \<Rightarrow> (string \<times> pyval) list" where
  "original_section w =
     [(''url'', PStr ''https://media.giphy.com/test.gif''),
      (''width'', w),
      (''height'', PStr ''270''),
      (''size'', PStr ''1000000'')]"

definition images_of :: "pyval \<Rightarrow> (string \<times> pyval) list" where
  "images_of w =
     [(''original'', PDict (original_section w)),
      (''fixed_height_small'', PDict
         [(''url'', PStr ''https://media.giphy.com/test_small.gif''),
          (''width'', PStr ''200''),
          (''height'', PStr ''113'')]),
      (''fixed_height_small_still'', PDict
         [(''url'', PStr ''https://media.giphy.com/test_thumb.gif''),
          (''width'', PStr ''200''),
          (''height'', PStr ''113'')])]"

definition record_fields :: "pyval \<Rightarrow> (string \<times> pyval) list" where
  "record_fields w =
     [(''id'', PStr ''test123''),
      (''title'', PStr ''Test GIF''),
      (''url'', PStr ''https://giphy.com/gifs/test123''),
      (''rating'', PStr ''pg''),
      (''import_datetime'', PStr ''2024-01-01 12:00:00''),
      (''tags'', PList [PStr ''test'', PStr ''funny'']),
      (''images'', PDict (images_of w))]"

definition gif_record :: "pyval \<Rightarrow> pyval" where
  "gif_record w = PDict (record_fields w)"

definition gif_item :: "int \<Rightarrow> GifData" where
  "gif_item w =
     \<lparr>id' = PStr ''test123'', title = PStr ''Test GIF'',
      url' = PStr ''https://giphy.com/gifs/test123'', rating = PStr ''pg'',
      created_at = PStr ''2024-01-01 12:00:00'', tags = PList [PStr ''test'', PStr ''funny''],
      original = \<lparr>url = PStr ''https://media.giphy.com/test.gif'', width = w,
                  height = 270, size' = 1000000\<rparr>,
      preview = \<lparr>url = PStr ''https://media.giphy.com/test_small.gif'', width = 200,
                 height = 113, size' = 0\<rparr>,
      thumbnail = \<lparr>url = PStr ''https://media.giphy.com/test_thumb.gif'', width = 200,
                   height = 113, size' = 0\<rparr>\<rparr>"

definition upstream_body :: "pyval list \<Rightarrow> int \<Rightarrow> int \<Rightarrow> pyval" where
  "upstream_body records c off =
     PDict [(''data'', PList records),
            (''pagination'', PDict [(''total_count'', PInt 100), (''count'', PInt c),
                                    (''offset'', PInt off)]),
            (''meta'', PDict [(''status'', PInt 200), (''msg'', PStr ''OK'')])]"

definition net_ok :: "pyval \<Rightarrow> int \<Rightarrow> attempt_outcome" where
  "net_ok body a = Response 200 ''OK'' (Inr body)"

definition record_null_images :: pyval where
  "record_null_images = PDict [(''id'', PStr ''test123''), (''images'', PNone)]"

definition record_null_original :: pyval where
  "record_null_original =
     PDict [(''id'', PStr ''test123''), (''images'', PDict [(''original'', PNone)])]"

section \<open>Properties\<close>

lemma then_exn_simps [simp]:
  "then_exn (Inl e) f = Inl e"
  "then_exn (Inr x) f = f x"
  by (simp_all add: then_exn_def)

subsection \<open>The retry loop\<close>

lemma search_gifs_valid:
  assumes "\<not> query_rejected q" "search_params_of cfg q opts = Inr ps"
    "validate_search_params ps = Inr ()"
  shows "search_gifs cfg net q opts =
     (case make_request cfg net ''/search'' ps of
        (Inl e, tr) \<Rightarrow> (Inr (handle_error e ''search_gifs''), tr)
      | (Inr d, tr) \<Rightarrow>
          (case transform_response d of
             Inl e \<Rightarrow> (Inr (handle_error e ''search_gifs''), tr)
           | Inr r \<Rightarrow> (Inr r, tr)))"
  using assms by (simp add: search_gifs_def)

lemma request_loop_fail_last:
  assumes "\<forall>x\<in>set as. \<exists>e. attempt_body (net x) = Inl e"
    and "attempt_body (net a) = Inl e"
  shows "fst (request_loop cfg net u ps (as @ [a]) last_error tr) = Inl (caught e)"
  using assms
proof (induction as arbitrary: last_error tr)
  case Nil
  then show ?case by simp
next
  case (Cons x xs)
  then obtain e' where "attempt_body (net x) = Inl e'" by auto
  with Cons show ?case by simp
qed

lemma request_loop_fail_count:
  assumes "\<forall>x\<in>set as. \<exists>e. attempt_body (net x) = Inl e"
  shows "length (filter is_HttpGet (snd (request_loop cfg net u ps as last_error tr)))
           = length (filter is_HttpGet tr) + length as"
  using assms
proof (induction as arbitrary: last_error tr)
  case Nil
  then show ?case by (simp split: option.splits)
next
  case (Cons x xs)
  then obtain e' where "attempt_body (net x) = Inl e'" by auto
  with Cons show ?case by simp
qed

lemma request_loop_events:
  "set (snd (request_loop cfg net u ps as last_error tr))
     \<subseteq> set tr \<union> {HttpGet u ps} \<union> range Sleep"
proof (induction as arbitrary: last_error tr)
  case Nil
  then show ?case by (auto split: option.splits)
next
  case (Cons x xs)
  show ?case
  proof (cases "attempt_body (net x)")
    case (Inl e)
    define tr' where "tr' =
      (if x < retry_attempts cfg
       then tr @ [HttpGet u ps, Sleep (retry_delay cfg * of_int x)]
       else tr @ [HttpGet u ps])"
    have step: "request_loop cfg net u ps (x # xs) last_error tr =
                request_loop cfg net u ps xs (Some (caught e)) tr'"
      using Inl by (simp add: tr'_def)
    have "set (snd (request_loop cfg net u ps xs (Some (caught e)) tr'))
            \<subseteq> set tr' \<union> {HttpGet u ps} \<union> range Sleep"
      by (rule Cons.IH)
    moreover have "set tr' \<subseteq> set tr \<union> {HttpGet u ps} \<union> range Sleep"
      by (auto simp: tr'_def)
    ultimately show ?thesis
      unfolding step by blast
  next
    case (Inr d)
    then show ?thesis by auto
  qed
qed

lemma upto_1_3: "[1 .. (3::int)] = [1, 2, 3]"
  by (simp add: upto_rec1)

lemma upto_snoc: "1 \<le> n \<Longrightarrow> [1 .. n] = [1 .. n - 1] @ [n]"
  by (simp add: upto_rec2)

lemma default_params:
  "search_params_of (default_config k) (PStr ''cats'') [] =
     Inr [(''q'', PStr ''cats''), (''limit'', PInt 10), (''offset'', PInt 0),
          (''rating'', PStr ''pg''), (''lang'', PStr ''en'')]"
  by (simp add: search_params_of_def default_config_def get_or_def strip_def is_space_def)

lemma default_params_valid:
  "validate_search_params [(''q'', PStr ''cats''), (''limit'', PInt 10), (''offset'', PInt 0),
          (''rating'', PStr ''pg''), (''lang'', PStr ''en'')] = Inr ()"
  by (simp add: validate_search_params_def get_or_def valid_ratings_def)

text \<open>
  C1. With \<open>retry_attempts = 3\<close> and three attempts that each raise a transport fault
  (an \<^verbatim>\<open>aiohttp.ClientError\<close> without a status), \<open>search_gifs\<close> makes exactly three
  GETs with the two sleeps \<open>retry_delay * 1\<close> and \<open>retry_delay * 2\<close> between them and
  none after the last, and the failure it reports is the third attempt's. The kind it
  reports is \<open>UNKNOWN_ERROR\<close>, not \<open>NETWORK_ERROR\<close>: the retry loop has wrapped the
  fault into a plain \<^verbatim>\<open>GiphyError\<close> before the classifier sees it.
\<close>

theorem search_transport_faults_unknown:
  assumes "\<not> query_rejected q" and "search_params_of cfg q opts = Inr ps"
    and "validate_search_params ps = Inr ()"
    and "retry_attempts cfg = 3"
    and "net 1 = Raises (ClientError t1)" and "net 2 = Raises (ClientError t2)"
    and "net 3 = Raises (ClientError t3)"
  shows "search_gifs cfg net q opts =
     (Inr \<lparr>success = False, data = None, pagination = None, message = [],
           error = Some \<lparr>etype = UNKNOWN_ERROR,
                         message_of = GiphyError_Client (ClientError t3),
                         in_method = ''search_gifs''\<rparr>\<rparr>,
      [HttpGet (base_url @ ''/search'') (AList.update ''api_key'' (PStr (api_key cfg)) ps),
       Sleep (retry_delay cfg * 1),
       HttpGet (base_url @ ''/search'') (AList.update ''api_key'' (PStr (api_key cfg)) ps),
       Sleep (retry_delay cfg * 2),
       HttpGet (base_url @ ''/search'') (AList.update ''api_key'' (PStr (api_key cfg)) ps)])"
  using assms
  by (simp add: search_gifs_valid make_request_def upto_1_3 attempt_body_def caught_def
      handle_error_def)

theorem search_transport_faults_unknown_witness:
  "retry_attempts (default_config ''k'') = 3 \<and>
   search_gifs (default_config ''k'') net_refused (PStr ''cats'') [] =
     (Inr \<lparr>success = False, data = None, pagination = None, message = [],
           error = Some \<lparr>etype = UNKNOWN_ERROR,
                         message_of = GiphyError_Client (ClientError ''third''),
                         in_method = ''search_gifs''\<rparr>\<rparr>,
      [HttpGet ''https://api.giphy.com/v1/gifs/search''
         [(''q'', PStr ''cats''), (''limit'', PInt 10), (''offset'', PInt 0),
          (''rating'', PStr ''pg''), (''lang'', PStr ''en''), (''api_key'', PStr ''k'')],
       Sleep 1,
       HttpGet ''https://api.giphy.com/v1/gifs/search''
         [(''q'', PStr ''cats''), (''limit'', PInt 10), (''offset'', PInt 0),
          (''rating'', PStr ''pg''), (''lang'', PStr ''en''), (''api_key'', PStr ''k'')],
       Sleep 2,
       HttpGet ''https://api.giphy.com/v1/gifs/search''
         [(''q'', PStr ''cats''), (''limit'', PInt 10), (''offset'', PInt 0),
          (''rating'', PStr ''pg''), (''lang'', PStr ''en''), (''api_key'', PStr ''k'')]])"
proof -
  have r: "retry_attempts (default_config ''k'') = 3"
    by (simp add: default_config_def)
  have n: "net_refused 1 = Raises (ClientError ''first'')"
    "net_refused 2 = Raises (ClientError ''second'')"
    "net_refused 3 = Raises (ClientError ''third'')"
    by (simp_all add: net_refused_def)
  have q: "\<not> query_rejected (PStr ''cats'')" by simp
  show ?thesis
    using search_transport_faults_unknown [OF q default_params default_params_valid r n]
    by (simp add: default_config_def base_url_def)
qed

text \<open>
  C2. When the last attempt of a failed search is a response with an HTTP status other
  than 200, whatever the status is, the kind reported is \<open>UNKNOWN_ERROR\<close>: the
  \<^verbatim>\<open>ClientResponseError\<close> is caught by the \<^verbatim>\<open>aiohttp.ClientError\<close> clause of the retry
  loop and wrapped, so the status ranges of the classifier are never consulted.
\<close>

theorem search_http_status_unknown:
  assumes "\<not> query_rejected q" and "search_params_of cfg q opts = Inr ps"
    and "validate_search_params ps = Inr ()"
    and "1 \<le> retry_attempts cfg"
    and "\<forall>a\<in>set [1 .. retry_attempts cfg - 1]. \<exists>e. attempt_body (net a) = Inl e"
    and "net (retry_attempts cfg) = Response s reason body" and "s \<noteq> 200"
  shows "fst (search_gifs cfg net q opts) =
     Inr \<lparr>success = False, data = None, pagination = None, message = [],
          error = Some \<lparr>etype = UNKNOWN_ERROR,
                        message_of = GiphyError_Client (ClientResponseError s reason),
                        in_method = ''search_gifs''\<rparr>\<rparr>"
proof -
  have b: "attempt_body (net (retry_attempts cfg)) = Inl (ClientResponseError s reason)"
    using assms(6,7) by (simp add: attempt_body_def)
  have "fst (make_request cfg net ''/search'' ps) = Inl (caught (ClientResponseError s reason))"
    unfolding make_request_def upto_snoc [OF assms(4)]
    by (rule request_loop_fail_last [OF assms(5) b])
  then show ?thesis
    using assms(1-3)
    by (cases "make_request cfg net ''/search'' ps")
       (simp add: search_gifs_valid caught_def handle_error_def)
qed

theorem search_http_status_unknown_witness:
  "fst (search_gifs (default_config ''k'') (net_status 404) (PStr ''cats'') []) =
     Inr \<lparr>success = False, data = None, pagination = None, message = [],
          error = Some \<lparr>etype = UNKNOWN_ERROR,
                        message_of = GiphyError_Client (ClientResponseError 404 ''reason''),
                        in_method = ''search_gifs''\<rparr>\<rparr> \<and>
   fst (search_gifs (default_config ''k'') (net_status 503) (PStr ''cats'') []) =
     Inr \<lparr>success = False, data = None, pagination = None, message = [],
          error = Some \<lparr>etype = UNKNOWN_ERROR,
                        message_of = GiphyError_Client (ClientResponseError 503 ''reason''),
                        in_method = ''search_gifs''\<rparr>\<rparr>"
proof -
  have q: "\<not> query_rejected (PStr ''cats'')" by simp
  have r: "1 \<le> retry_attempts (default_config ''k'')" by (simp add: default_config_def)
  have e: "\<forall>a\<in>set [1 .. retry_attempts (default_config ''k'') - 1].
             \<exists>e. attempt_body (net_status s a) = Inl e" if "s \<noteq> 200" for s
    using that by (simp add: net_status_def attempt_body_def)
  have l: "net_status s (retry_attempts (default_config ''k'')) = Response s ''reason'' (Inr PNone)" for s
    by (simp add: net_status_def)
  show ?thesis
    using search_http_status_unknown [OF q default_params default_params_valid r e l, of 404]
      search_http_status_unknown [OF q default_params default_params_valid r e l, of 503]
    by simp
qed

subsection \<open>Validation of caller input, API-level errors\<close>

lemma py_get_dict: "py_get x k dflt = Inr v \<Longrightarrow> \<exists>kvs. x = PDict kvs"
  by (cases x) auto

lemma meta_field_other:
  assumes "meta_field d k dflt = Inr v"
  shows "\<exists>w. meta_field d k' dflt' = Inr w"
proof -
  from assms obtain m where m: "py_get d ''meta'' (PDict []) = Inr m" "py_get m k dflt = Inr v"
    by (cases "py_get d ''meta'' (PDict [])") (auto simp: meta_field_def)
  from py_get_dict [OF m(2)] obtain kvs where "m = PDict kvs" ..
  with m(1) show ?thesis by (simp add: meta_field_def)
qed

text \<open>
  C3, as stated, fails: for the empty query the search does not return a failure envelope
  of kind \<open>VALIDATION_ERROR\<close>; the \<^verbatim>\<open>GiphyValidation\<close> it raises leaves \<open>search_gifs\<close>,
  since the check stands before the \<^verbatim>\<open>try\<close>.
\<close>

theorem search_raises_on_empty_query:
  "search_gifs (default_config ''k'') net_refused (PStr []) [] = (Inl GiphyValidation, [])"
  by (simp add: search_gifs_def)

text \<open>
  C3, amended. A query that is not a non-empty string makes \<open>search_gifs\<close> raise
  \<^verbatim>\<open>GiphyValidation\<close> to its caller; an integer limit below 1, an integer offset below 0
  or a string rating outside \<open>g, pg, pg-13, r\<close> makes it raise \<^verbatim>\<open>ValueError\<close> to its
  caller. Whenever \<open>search_gifs\<close> raises, no network attempt has been made.
\<close>

theorem search_invalid_input_raises:
  "(query_rejected q \<longrightarrow> search_gifs cfg net q opts = (Inl GiphyValidation, [])) \<and>
   (\<not> query_rejected q \<and> get_or opts ''limit'' (cfg_limit cfg) = PInt n \<and> n < 1
      \<longrightarrow> search_gifs cfg net q opts = (Inl ValueError, [])) \<and>
   (\<not> query_rejected q \<and> get_or opts ''limit'' (cfg_limit cfg) = PInt n \<and> 1 \<le> n \<and>
    get_or opts ''offset'' (PInt 0) = PInt m \<and> m < 0
      \<longrightarrow> search_gifs cfg net q opts = (Inl ValueError, [])) \<and>
   (\<not> query_rejected q \<and> get_or opts ''limit'' (cfg_limit cfg) = PInt n \<and> 1 \<le> n \<and>
    get_or opts ''offset'' (PInt 0) = PInt m \<and> 0 \<le> m \<and>
    get_or opts ''rating'' (cfg_rating cfg) = PStr s \<and> s \<notin> set valid_ratings
      \<longrightarrow> search_gifs cfg net q opts = (Inl ValueError, [])) \<and>
   (fst (search_gifs cfg net q opts) = Inl e \<longrightarrow> snd (search_gifs cfg net q opts) = [])"
proof (intro conjI impI)
  show "search_gifs cfg net q opts = (Inl GiphyValidation, [])" if "query_rejected q"
    using that by (simp add: search_gifs_def)
  show "search_gifs cfg net q opts = (Inl ValueError, [])"
    if "\<not> query_rejected q \<and> get_or opts ''limit'' (cfg_limit cfg) = PInt n \<and> n < 1"
    using that
    by (simp add: search_gifs_def search_params_of_def validate_search_params_def get_or_def)
  show "search_gifs cfg net q opts = (Inl ValueError, [])"
    if "\<not> query_rejected q \<and> get_or opts ''limit'' (cfg_limit cfg) = PInt n \<and> 1 \<le> n \<and>
        get_or opts ''offset'' (PInt 0) = PInt m \<and> m < 0"
    using that
    by (simp add: search_gifs_def search_params_of_def validate_search_params_def get_or_def)
  show "search_gifs cfg net q opts = (Inl ValueError, [])"
    if "\<not> query_rejected q \<and> get_or opts ''limit'' (cfg_limit cfg) = PInt n \<and> 1 \<le> n \<and>
        get_or opts ''offset'' (PInt 0) = PInt m \<and> 0 \<le> m \<and>
        get_or opts ''rating'' (cfg_rating cfg) = PStr s \<and> s \<notin> set valid_ratings"
    using that
    by (simp add: search_gifs_def search_params_of_def validate_search_params_def get_or_def)
  show "snd (search_gifs cfg net q opts) = []" if "fst (search_gifs cfg net q opts) = Inl e"
    using that
    by (auto simp: search_gifs_def split: if_splits sum.splits prod.splits)
qed

theorem search_invalid_input_raises_witness:
  "search_gifs (default_config ''k'') net_refused (PInt 123) [] = (Inl GiphyValidation, []) \<and>
   search_gifs (default_config ''k'') net_refused (PStr ''cats'') [(''limit'', PInt 0)]
     = (Inl ValueError, []) \<and>
   search_gifs (default_config ''k'') net_refused (PStr ''cats'') [(''offset'', PInt (- 1))]
     = (Inl ValueError, []) \<and>
   search_gifs (default_config ''k'') net_refused (PStr ''cats'') [(''rating'', PStr ''x'')]
     = (Inl ValueError, [])"
  using search_invalid_input_raises [where q = "PInt 123" and cfg = "default_config ''k''"
       and net = net_refused and opts = "[]"]
    search_invalid_input_raises [where q = "PStr ''cats''" and cfg = "default_config ''k''"
       and net = net_refused and opts = "[(''limit'', PInt 0)]" and n = 0]
    search_invalid_input_raises [where q = "PStr ''cats''" and cfg = "default_config ''k''"
       and net = net_refused and opts = "[(''offset'', PInt (- 1))]" and n = 10 and m = "- 1"]
    search_invalid_input_raises [where q = "PStr ''cats''" and cfg = "default_config ''k''"
       and net = net_refused and opts = "[(''rating'', PStr ''x'')]" and n = 10 and m = 0
       and s = "''x''"]
  by (simp add: get_or_def default_config_def valid_ratings_def)

text \<open>
  C4. An attempt answered with HTTP status 200 whose body has a \<^verbatim>\<open>meta.status\<close> that is
  not 200 fails with the API-level \<^verbatim>\<open>GiphyError("Giphy API Error: ...")\<close>, which the
  \<^verbatim>\<open>except\<close> clauses keep as it is (it is neither the timeout nor the wrapped client
  error). Nothing is returned: the loop records the GET, sleeps if attempts remain, and goes
  on with the remaining attempts, this error being \<^verbatim>\<open>last_error\<close>.
\<close>

theorem api_error_is_failed_attempt:
  assumes "net a = Response 200 reason (Inr d)"
    and "meta_field d ''status'' PNone = Inr st" and "\<not> py_eq_int st 200"
  shows "\<exists>m. meta_field d ''msg'' (PStr ''Unknown error'') = Inr m \<and>
             attempt_body (net a) = Inl (GiphyError_Api m) \<and>
             caught (GiphyError_Api m) = GiphyError_Api m \<and>
             error_type_of (GiphyError_Api m) = UNKNOWN_ERROR \<and>
             request_loop cfg net u ps (a # rest) last_error tr =
               request_loop cfg net u ps rest (Some (GiphyError_Api m))
                 (if a < retry_attempts cfg
                  then tr @ [HttpGet u ps, Sleep (retry_delay cfg * of_int a)]
                  else tr @ [HttpGet u ps])"
proof -
  from meta_field_other [OF assms(2)]
  obtain m where m: "meta_field d ''msg'' (PStr ''Unknown error'') = Inr m" by blast
  have b: "attempt_body (net a) = Inl (GiphyError_Api m)"
    using assms m by (simp add: attempt_body_def)
  have c: "caught (GiphyError_Api m) = GiphyError_Api m"
    by (simp add: caught_def)
  show ?thesis
    using m b c by simp
qed

theorem api_error_is_failed_attempt_witness:
  "attempt_body (net_api_error 3) = Inl (GiphyError_Api (PStr ''Too Many Requests'')) \<and>
   request_loop (default_config ''k'') net_api_error ''u'' [] [3] None [] =
     (Inl (GiphyError_Api (PStr ''Too Many Requests'')), [HttpGet ''u'' []])"
proof -
  have n: "net_api_error 3 = Response 200 ''OK''
       (Inr (PDict [(''data'', PList []),
                    (''meta'', PDict [(''status'', PInt 429),
                                      (''msg'', PStr ''Too Many Requests'')])]))"
    by (simp add: net_api_error_def)
  have st: "meta_field (PDict [(''data'', PList []),
                    (''meta'', PDict [(''status'', PInt 429),
                                      (''msg'', PStr ''Too Many Requests'')])]) ''status'' PNone
             = Inr (PInt 429)"
    by (simp add: meta_field_def)
  have ne: "\<not> py_eq_int (PInt 429) 200" by simp
  show ?thesis
    using api_error_is_failed_attempt [where net = net_api_error and a = 3
        and cfg = "default_config ''k''" and u = "''u''" and ps = "[]" and rest = "[]"
        and last_error = None and tr = "[]", OF n st ne]
    by (auto simp: meta_field_def default_config_def)
qed

text \<open>
  End to end: when every attempt of the budget is such a response, the search returns a
  failure built from the API-level error after exactly \<open>retry_attempts\<close> GETs.
\<close>

lemma search_all_api_errors:
  assumes "\<not> query_rejected q" and "search_params_of cfg q opts = Inr ps"
    and "validate_search_params ps = Inr ()"
    and "1 \<le> retry_attempts cfg"
    and "\<forall>a\<in>set [1 .. retry_attempts cfg]. \<exists>reason d st.
           net a = Response 200 reason (Inr d) \<and> meta_field d ''status'' PNone = Inr st \<and>
           \<not> py_eq_int st 200"
  shows "\<exists>m tr. search_gifs cfg net q opts =
           (Inr (handle_error (GiphyError_Api m) ''search_gifs''), tr) \<and>
           int (length (filter is_HttpGet tr)) = retry_attempts cfg"
proof -
  have fails: "\<exists>m. attempt_body (net a) = Inl (GiphyError_Api m)"
    if "a \<in> set [1 .. retry_attempts cfg]" for a
  proof -
    from assms(5) that obtain reason d st where
      "net a = Response 200 reason (Inr d)" "meta_field d ''status'' PNone = Inr st"
      "\<not> py_eq_int st 200" by blast
    moreover from meta_field_other [OF this(2)]
    obtain m where "meta_field d ''msg'' (PStr ''Unknown error'') = Inr m" by blast
    ultimately show ?thesis by (auto simp: attempt_body_def)
  qed
  then have all: "\<forall>a\<in>set [1 .. retry_attempts cfg]. \<exists>e. attempt_body (net a) = Inl e"
    by blast
  have "retry_attempts cfg \<in> set [1 .. retry_attempts cfg]"
    using assms(4) by simp
  from fails [OF this] obtain m where
    m: "attempt_body (net (retry_attempts cfg)) = Inl (GiphyError_Api m)" ..
  have init: "\<forall>a\<in>set [1 .. retry_attempts cfg - 1]. \<exists>e. attempt_body (net a) = Inl e"
    using all by simp
  obtain r tr where rt: "make_request cfg net ''/search'' ps = (r, tr)"
    by (cases "make_request cfg net ''/search'' ps")
  have "fst (make_request cfg net ''/search'' ps) = Inl (caught (GiphyError_Api m))"
    unfolding make_request_def upto_snoc [OF assms(4)]
    by (rule request_loop_fail_last [OF init m])
  with rt have r: "r = Inl (GiphyError_Api m)" by (simp add: caught_def)
  have "length (filter is_HttpGet (snd (make_request cfg net ''/search'' ps)))
          = length [1 .. retry_attempts cfg]"
    unfolding make_request_def using request_loop_fail_count [OF all] by simp
  with rt assms(4) have c: "int (length (filter is_HttpGet tr)) = retry_attempts cfg"
    by simp
  show ?thesis
    using assms(1-3) rt r c
    by (intro exI [of _ m] exI [of _ tr]) (simp add: search_gifs_valid)
qed

subsection \<open>The transform\<close>

lemmas py_int_defs = int_strip_def is_int_space_def parse_unsigned_def is_digit_def digits_value_def
  int_max_str_digits_def

lemmas gif_record_defs = gif_record_def record_fields_def images_of_def original_section_def

lemma transform_gif_record_480: "transform_gif (gif_record (PStr ''480'')) = Inr (gif_item 480)"
  by (simp add: gif_record_defs gif_item_def transform_gif_def make_image_def image_field_def
      py_int_defs)

lemma transform_gif_record_neg: "transform_gif (gif_record (PStr ''-5'')) = Inr (gif_item (- 5))"
  by (simp add: gif_record_defs gif_item_def transform_gif_def make_image_def image_field_def
      py_int_defs)

lemma transform_gif_record_abc: "transform_gif (gif_record (PStr ''abc'')) = Inl ValueError"
  by (simp add: gif_record_defs gif_item_def transform_gif_def make_image_def image_field_def
      py_int_defs)

lemma transform_gif_record_null: "transform_gif (gif_record PNone) = Inl TypeError"
  by (simp add: gif_record_defs gif_item_def transform_gif_def make_image_def image_field_def
      py_int_defs)

lemma make_request_first_ok:
  assumes "1 \<le> retry_attempts cfg" and "attempt_body (net 1) = Inr d"
  shows "make_request cfg net endpoint ps =
     (Inr d, [HttpGet (base_url @ endpoint) (AList.update ''api_key'' (PStr (api_key cfg)) ps)])"
  using assms by (simp add: make_request_def upto_rec1)

lemma attempt_body_net_ok:
  "attempt_body (net_ok (upstream_body records c off) a) = Inr (upstream_body records c off)"
  by (simp add: net_ok_def upstream_body_def attempt_body_def meta_field_def)

lemma search_net_ok:
  "search_gifs (default_config ''k'') (net_ok (upstream_body records c off)) (PStr ''cats'') [] =
     (case transform_response (upstream_body records c off) of
        Inl e \<Rightarrow> Inr (handle_error e ''search_gifs'')
      | Inr r \<Rightarrow> Inr r,
      [HttpGet ''https://api.giphy.com/v1/gifs/search''
         [(''q'', PStr ''cats''), (''limit'', PInt 10), (''offset'', PInt 0),
          (''rating'', PStr ''pg''), (''lang'', PStr ''en''), (''api_key'', PStr ''k'')]])"
proof -
  have q: "\<not> query_rejected (PStr ''cats'')" by simp
  have r: "1 \<le> retry_attempts (default_config ''k'')" by (simp add: default_config_def)
  show ?thesis
    unfolding search_gifs_valid [OF q default_params default_params_valid]
      make_request_first_ok [OF r attempt_body_net_ok]
    by (simp add: base_url_def default_config_def split: sum.splits)
qed

text \<open>
  C5. Of the two records below the first is well formed and the second has
  \<^verbatim>\<open>"width": null\<close>, a field that fails integer coercion. The search does not return a
  success with the one surviving item: \<^verbatim>\<open>int(None)\<close> raises a TypeError, the loop's
  \<^verbatim>\<open>except (ValueError, KeyError)\<close> does not catch it, and the whole search becomes a
  failure of kind \<open>UNKNOWN_ERROR\<close>.
\<close>

theorem search_null_width_fails:
  "transform_gif (gif_record (PStr ''480'')) = Inr (gif_item 480) \<and>
   py_int PNone = Inl TypeError \<and>
   fst (search_gifs (default_config ''k'')
          (net_ok (upstream_body [gif_record (PStr ''480''), gif_record PNone] 2 0))
          (PStr ''cats'') []) =
     Inr \<lparr>success = False, data = None, pagination = None, message = [],
          error = Some \<lparr>etype = UNKNOWN_ERROR, message_of = TypeError,
                        in_method = ''search_gifs''\<rparr>\<rparr>"
  unfolding search_net_ok
  by (simp add: transform_gif_record_480 transform_gif_record_null
      transform_response_def upstream_body_def handle_error_def)

text \<open>
  What the loop does catch: when the first attempt succeeds with a body of two records, of
  which one transforms into an item and the other stops with a ValueError (an image field
  that is a string \<^verbatim>\<open>int()\<close> cannot parse), the search returns a success whose only item
  is the well-formed record's, while the page information still carries upstream's count 2.
\<close>

lemma search_drops_value_error_record:
  assumes "\<not> query_rejected q" and "search_params_of cfg q opts = Inr ps"
    and "validate_search_params ps = Inr ()"
    and "1 \<le> retry_attempts cfg"
    and "attempt_body (net 1) = Inr d"
    and "py_get d ''data'' (PList []) = Inr (PList [r1, r2])"
    and "transform_gif r1 = Inr g \<and> transform_gif r2 = Inl ValueError \<or>
         transform_gif r1 = Inl ValueError \<and> transform_gif r2 = Inr g"
    and "py_get d ''pagination'' (PDict []) = Inr pg"
    and "py_get pg ''total_count'' (PInt 0) = Inr t"
    and "py_get pg ''count'' (PInt 0) = Inr (PInt 2)"
    and "py_get pg ''offset'' (PInt 0) = Inr off"
  shows "fst (search_gifs cfg net q opts) =
       Inr \<lparr>success = True, data = Some (Items [g]),
            pagination = Some \<lparr>total' = t, count = PInt 2, offset = off\<rparr>,
            message = ''Found 1 GIFs'', error = None\<rparr>"
proof -
  have loop: "transform_loop [r1, r2] [] = Inr [g]"
    using assms(7) by auto
  have "transform_response d =
          Inr \<lparr>success = True, data = Some (Items [g]),
               pagination = Some \<lparr>total' = t, count = PInt 2, offset = off\<rparr>,
               message = ''Found 1 GIFs'', error = None\<rparr>"
    using assms(6,8-11) loop
    by (simp add: transform_response_def str_nat.simps)
  then show ?thesis
    using assms(1-5) by (simp add: search_gifs_valid make_request_first_ok)
qed

lemma search_drops_value_error_record_instance:
  "transform_gif (gif_record (PStr ''abc'')) = Inl ValueError \<and>
   fst (search_gifs (default_config ''k'')
          (net_ok (upstream_body [gif_record (PStr ''480''), gif_record (PStr ''abc'')] 2 0))
          (PStr ''cats'') []) =
     Inr \<lparr>success = True, data = Some (Items [gif_item 480]),
          pagination = Some \<lparr>total' = PInt 100, count = PInt 2, offset = PInt 0\<rparr>,
          message = ''Found 1 GIFs'', error = None\<rparr>"
proof -
  let ?b = "upstream_body [gif_record (PStr ''480''), gif_record (PStr ''abc'')] 2 0"
  let ?pg = "PDict [(''total_count'', PInt 100), (''count'', PInt 2), (''offset'', PInt 0)]"
  have q: "\<not> query_rejected (PStr ''cats'')" by simp
  have r: "1 \<le> retry_attempts (default_config ''k'')" by (simp add: default_config_def)
  have d: "py_get ?b ''data'' (PList []) =
             Inr (PList [gif_record (PStr ''480''), gif_record (PStr ''abc'')])"
    by (simp add: upstream_body_def)
  have t: "transform_gif (gif_record (PStr ''480'')) = Inr (gif_item 480) \<and>
           transform_gif (gif_record (PStr ''abc'')) = Inl ValueError \<or>
           transform_gif (gif_record (PStr ''480'')) = Inl ValueError \<and>
           transform_gif (gif_record (PStr ''abc'')) = Inr (gif_item 480)"
    by (simp add: transform_gif_record_480 transform_gif_record_abc)
  have p: "py_get ?b ''pagination'' (PDict []) = Inr ?pg"
    by (simp add: upstream_body_def)
  have c: "py_get ?pg ''total_count'' (PInt 0) = Inr (PInt 100)"
    "py_get ?pg ''count'' (PInt 0) = Inr (PInt 2)"
    "py_get ?pg ''offset'' (PInt 0) = Inr (PInt 0)"
    by simp_all
  have "fst (search_gifs (default_config ''k'') (net_ok ?b) (PStr ''cats'') []) =
     Inr \<lparr>success = True, data = Some (Items [gif_item 480]),
          pagination = Some \<lparr>total' = PInt 100, count = PInt 2, offset = PInt 0\<rparr>,
          message = ''Found 1 GIFs'', error = None\<rparr>"
    by (rule search_drops_value_error_record [where net = "net_ok ?b",
        OF q default_params default_params_valid r attempt_body_net_ok d t p c])
  then show ?thesis
    by (simp add: transform_gif_record_abc)
qed

subsection \<open>Missing sections, the envelope, the single-result operation\<close>

lemma make_image_missing:
  assumes "map_of imgs section = None"
  shows "make_image (PDict imgs) section with_size =
           Inr \<lparr>url = PStr [], width = 0, height = 0, size' = 0\<rparr>"
  using assms by (simp add: make_image_def image_field_def)

text \<open>
  Sections that are absent as keys: a record whose \<^verbatim>\<open>images\<close> entry is absent, or is a dict
  without the sections \<^verbatim>\<open>original\<close>, \<^verbatim>\<open>fixed_height_small\<close> and
  \<^verbatim>\<open>fixed_height_small_still\<close>, is transformed into an item whose three images have the
  empty URL and zero width, height and size, and the loop appends that item.
\<close>

lemma missing_sections_default:
  assumes "get_or kvs ''images'' (PDict []) = PDict imgs"
    and "map_of imgs ''original'' = None"
    and "map_of imgs ''fixed_height_small'' = None"
    and "map_of imgs ''fixed_height_small_still'' = None"
  shows "transform_gif (PDict kvs) =
           Inr \<lparr>id' = get_or kvs ''id'' (PStr []), title = get_or kvs ''title'' (PStr []),
                url' = get_or kvs ''url'' (PStr []), rating = get_or kvs ''rating'' (PStr []),
                created_at = get_or kvs ''import_datetime'' (PStr []),
                tags = get_or kvs ''tags'' (PList []),
                original = \<lparr>url = PStr [], width = 0, height = 0, size' = 0\<rparr>,
                preview = \<lparr>url = PStr [], width = 0, height = 0, size' = 0\<rparr>,
                thumbnail = \<lparr>url = PStr [], width = 0, height = 0, size' = 0\<rparr>\<rparr> \<and>
         transform_loop (PDict kvs # rest) gifs =
           transform_loop rest (gifs @
             [\<lparr>id' = get_or kvs ''id'' (PStr []), title = get_or kvs ''title'' (PStr []),
               url' = get_or kvs ''url'' (PStr []), rating = get_or kvs ''rating'' (PStr []),
               created_at = get_or kvs ''import_datetime'' (PStr []),
               tags = get_or kvs ''tags'' (PList []),
               original = \<lparr>url = PStr [], width = 0, height = 0, size' = 0\<rparr>,
               preview = \<lparr>url = PStr [], width = 0, height = 0, size' = 0\<rparr>,
               thumbnail = \<lparr>url = PStr [], width = 0, height = 0, size' = 0\<rparr>\<rparr>])"
proof -
  have i: "py_get (PDict kvs) ''images'' (PDict []) = Inr (PDict imgs)"
    using assms(1) by (simp add: get_or_def)
  have t: "transform_gif (PDict kvs) =
           Inr \<lparr>id' = get_or kvs ''id'' (PStr []), title = get_or kvs ''title'' (PStr []),
                url' = get_or kvs ''url'' (PStr []), rating = get_or kvs ''rating'' (PStr []),
                created_at = get_or kvs ''import_datetime'' (PStr []),
                tags = get_or kvs ''tags'' (PList []),
                original = \<lparr>url = PStr [], width = 0, height = 0, size' = 0\<rparr>,
                preview = \<lparr>url = PStr [], width = 0, height = 0, size' = 0\<rparr>,
                thumbnail = \<lparr>url = PStr [], width = 0, height = 0, size' = 0\<rparr>\<rparr>"
    unfolding transform_gif_def i
    by (simp add: make_image_missing assms(2-4) get_or_def)
  show ?thesis
    unfolding transform_loop.simps t by simp
qed

lemma missing_sections_default_instance:
  "transform_gif (PDict [(''id'', PStr ''abc''), (''images'', PDict [])]) =
     Inr \<lparr>id' = PStr ''abc'', title = PStr [], url' = PStr [], rating = PStr [],
          created_at = PStr [], tags = PList [],
          original = \<lparr>url = PStr [], width = 0, height = 0, size' = 0\<rparr>,
          preview = \<lparr>url = PStr [], width = 0, height = 0, size' = 0\<rparr>,
          thumbnail = \<lparr>url = PStr [], width = 0, height = 0, size' = 0\<rparr>\<rparr> \<and>
   transform_loop [PDict [(''id'', PStr ''abc''), (''images'', PDict [])]] [] =
     Inr [\<lparr>id' = PStr ''abc'', title = PStr [], url' = PStr [], rating = PStr [],
          created_at = PStr [], tags = PList [],
          original = \<lparr>url = PStr [], width = 0, height = 0, size' = 0\<rparr>,
          preview = \<lparr>url = PStr [], width = 0, height = 0, size' = 0\<rparr>,
          thumbnail = \<lparr>url = PStr [], width = 0, height = 0, size' = 0\<rparr>\<rparr>]"
proof -
  have i: "get_or [(''id'', PStr ''abc''), (''images'', PDict [])] ''images'' (PDict []) = PDict []"
    by (simp add: get_or_def)
  have m: "map_of ([] :: (string \<times> pyval) list) ''original'' = None"
    "map_of ([] :: (string \<times> pyval) list) ''fixed_height_small'' = None"
    "map_of ([] :: (string \<times> pyval) list) ''fixed_height_small_still'' = None"
    by simp_all
  show ?thesis
    using missing_sections_default [OF i m, where rest = "[]" and gifs = "[]"]
    by (simp add: get_or_def)
qed

lemma search_gifs_gets:
  assumes "HttpGet u ps' \<in> set (snd (search_gifs cfg net q opts))"
  shows "\<exists>ps. search_params_of cfg q opts = Inr ps \<and>
              ps' = AList.update ''api_key'' (PStr (api_key cfg)) ps"
proof (cases "search_params_of cfg q opts")
  case (Inl e)
  with assms show ?thesis by (simp add: search_gifs_def split: if_splits)
next
  case (Inr ps)
  let ?u = "base_url @ ''/search''" and ?ps = "AList.update ''api_key'' (PStr (api_key cfg)) ps"
  have "snd (search_gifs cfg net q opts) = [] \<or>
        snd (search_gifs cfg net q opts) = snd (make_request cfg net ''/search'' ps)"
    using Inr by (auto simp: search_gifs_def split: sum.splits prod.splits)
  with assms have "HttpGet u ps' \<in> set (snd (make_request cfg net ''/search'' ps))"
    by auto
  then have "HttpGet u ps' \<in> set [] \<union> {HttpGet ?u ?ps} \<union> range Sleep"
    unfolding make_request_def using request_loop_events by blast
  then have "ps' = ?ps" by auto
  with Inr show ?thesis by simp
qed

lemma search_params_of_cong:
  assumes "\<And>k. k \<in> {''limit'', ''offset'', ''rating'', ''lang''} \<Longrightarrow> map_of opts k = map_of opts' k"
  shows "search_params_of cfg q opts = search_params_of cfg q opts'"
  using assms by (simp add: search_params_of_def get_or_def)

lemma search_gifs_cong:
  assumes "\<And>k. k \<in> {''limit'', ''offset'', ''rating'', ''lang''} \<Longrightarrow> map_of opts k = map_of opts' k"
  shows "search_gifs cfg net q opts = search_gifs cfg net q opts'"
proof -
  have "search_params_of cfg q opts = search_params_of cfg q opts'"
    by (rule search_params_of_cong) (rule assms)
  then show ?thesis by (simp add: search_gifs_def)
qed

lemma forced_params:
  assumes "search_params_of cfg q
             (AList.update ''offset'' (PInt 0) (AList.update ''limit'' (PInt 1) opts)) = Inr ps"
  shows "map_of ps ''limit'' = Some (PInt 1) \<and> map_of ps ''offset'' = Some (PInt 0)"
  using assms by (auto simp: search_params_of_def get_or_def update_conv')

text \<open>
  C7. Every GET that \<open>get_random_gif\<close> causes carries \<open>limit = 1\<close> and \<open>offset = 0\<close>;
  two option dicts that differ only in \<open>limit\<close> and \<open>offset\<close> give the same result, so the
  caller's values for them are overridden; and when the delegated search succeeds with zero
  items the result is a success with no payload and the note \<open>No GIF found for query\<close>.
\<close>

theorem get_random_gif_forces_limit_offset:
  "(\<forall>u ps. HttpGet u ps \<in> set (snd (get_random_gif cfg net q opts)) \<longrightarrow>
       map_of ps ''limit'' = Some (PInt 1) \<and> map_of ps ''offset'' = Some (PInt 0)) \<and>
   ((\<forall>k. k \<noteq> ''limit'' \<and> k \<noteq> ''offset'' \<longrightarrow> map_of opts k = map_of opts' k) \<longrightarrow>
       get_random_gif cfg net q opts = get_random_gif cfg net q opts') \<and>
   (search_gifs cfg net q
       (AList.update ''offset'' (PInt 0) (AList.update ''limit'' (PInt 1) opts)) = (Inr r, tr) \<and>
    success r \<and> data r = Some (Items []) \<longrightarrow>
       get_random_gif cfg net q opts =
         (Inr \<lparr>success = True, data = None, pagination = None,
               message = ''No GIF found for query'', error = None\<rparr>, tr))"
proof (intro conjI allI impI)
  let ?f = "\<lambda>xs. AList.update ''offset'' (PInt 0) (AList.update ''limit'' (PInt 1) xs)"
  have tr_eq: "snd (get_random_gif cfg net q opts) = snd (search_gifs cfg net q (?f opts))"
    by (simp add: get_random_gif_def split: prod.splits sum.splits)
  {
    fix u ps assume "HttpGet u ps \<in> set (snd (get_random_gif cfg net q opts))"
    then have "HttpGet u ps \<in> set (snd (search_gifs cfg net q (?f opts)))"
      by (simp only: tr_eq)
    from search_gifs_gets [OF this] obtain ps0 where
      ps0: "search_params_of cfg q (?f opts) = Inr ps0"
        "ps = AList.update ''api_key'' (PStr (api_key cfg)) ps0" by blast
    from forced_params [OF ps0(1)] ps0(2)
    show "map_of ps ''limit'' = Some (PInt 1)" and "map_of ps ''offset'' = Some (PInt 0)"
      by (simp_all add: update_conv')
  }
  {
    assume a: "\<forall>k. k \<noteq> ''limit'' \<and> k \<noteq> ''offset'' \<longrightarrow> map_of opts k = map_of opts' k"
    have "search_gifs cfg net q (?f opts) = search_gifs cfg net q (?f opts')"
      by (rule search_gifs_cong) (use a in \<open>auto simp: update_conv'\<close>)
    then show "get_random_gif cfg net q opts = get_random_gif cfg net q opts'"
      by (simp add: get_random_gif_def)
  }
  {
    assume "search_gifs cfg net q (?f opts) = (Inr r, tr) \<and> success r \<and> data r = Some (Items [])"
    then show "get_random_gif cfg net q opts =
         (Inr \<lparr>success = True, data = None, pagination = None,
               message = ''No GIF found for query'', error = None\<rparr>, tr)"
      by (simp add: get_random_gif_def)
  }
qed

text \<open>
  C10. Whatever \<open>get_random_gif\<close> returns has \<open>success = True\<close> and no error. When the
  delegated search returns a failure envelope, the result is the success with no payload and
  the note \<open>No GIF found for query\<close>: the error kind and message are gone.
\<close>

theorem get_random_gif_never_fails:
  "(get_random_gif cfg net q opts = (Inr r, tr) \<longrightarrow> success r \<and> error r = None) \<and>
   (search_gifs cfg net q
       (AList.update ''offset'' (PInt 0) (AList.update ''limit'' (PInt 1) opts)) = (Inr r', tr') \<and>
    \<not> success r' \<longrightarrow>
       get_random_gif cfg net q opts =
         (Inr \<lparr>success = True, data = None, pagination = None,
               message = ''No GIF found for query'', error = None\<rparr>, tr'))"
  by (auto simp: get_random_gif_def split: prod.splits sum.splits if_splits)

lemmas search_eval = search_gifs_def search_params_of_def get_or_def validate_search_params_def
  valid_ratings_def make_request_def attempt_body_def meta_field_def caught_def handle_error_def
  transform_response_def default_config_def base_url_def strip_def is_space_def net_ok_def
  upstream_body_def upto_1_3 str_nat.simps net_refused_def

lemma search_empty_forced:
  "search_gifs (default_config ''k'') (net_ok (upstream_body [] 0 0)) (PStr ''cats'')
       (AList.update ''offset'' (PInt 0)
          (AList.update ''limit'' (PInt 1) [(''limit'', PInt 25), (''offset'', PInt 10)])) =
     (Inr \<lparr>success = True, data = Some (Items []),
           pagination = Some \<lparr>total' = PInt 100, count = PInt 0, offset = PInt 0\<rparr>,
           message = ''Found 0 GIFs'', error = None\<rparr>,
      [HttpGet ''https://api.giphy.com/v1/gifs/search''
         [(''q'', PStr ''cats''), (''limit'', PInt 1), (''offset'', PInt 0),
          (''rating'', PStr ''pg''), (''lang'', PStr ''en''), (''api_key'', PStr ''k'')]])"
  by (simp add: search_eval)

lemma search_refused_forced:
  "search_gifs (default_config ''k'') net_refused (PStr ''cats'')
       (AList.update ''offset'' (PInt 0) (AList.update ''limit'' (PInt 1) [])) =
     (Inr \<lparr>success = False, data = None, pagination = None, message = [],
           error = Some \<lparr>etype = UNKNOWN_ERROR,
                         message_of = GiphyError_Client (ClientError ''third''),
                         in_method = ''search_gifs''\<rparr>\<rparr>,
      [HttpGet ''https://api.giphy.com/v1/gifs/search''
         [(''q'', PStr ''cats''), (''limit'', PInt 1), (''offset'', PInt 0),
          (''rating'', PStr ''pg''), (''lang'', PStr ''en''), (''api_key'', PStr ''k'')],
       Sleep 1,
       HttpGet ''https://api.giphy.com/v1/gifs/search''
         [(''q'', PStr ''cats''), (''limit'', PInt 1), (''offset'', PInt 0),
          (''rating'', PStr ''pg''), (''lang'', PStr ''en''), (''api_key'', PStr ''k'')],
       Sleep 2,
       HttpGet ''https://api.giphy.com/v1/gifs/search''
         [(''q'', PStr ''cats''), (''limit'', PInt 1), (''offset'', PInt 0),
          (''rating'', PStr ''pg''), (''lang'', PStr ''en''), (''api_key'', PStr ''k'')]])"
  by (simp add: search_eval)

text \<open>
  C9, as stated, fails: upstream's width \<^verbatim>\<open>"-5"\<close> and offset \<open>-1\<close> pass through the
  transform unchecked, so the success below holds an image of negative width and a page of
  negative offset.
\<close>

theorem search_negative_width:
  "fst (search_gifs (default_config ''k'')
          (net_ok (upstream_body [gif_record (PStr ''-5'')] 1 (- 1))) (PStr ''cats'') []) =
     Inr \<lparr>success = True, data = Some (Items [gif_item (- 5)]),
          pagination = Some \<lparr>total' = PInt 100, count = PInt 1, offset = PInt (- 1)\<rparr>,
          message = ''Found 1 GIFs'', error = None\<rparr> \<and>
   width (original (gif_item (- 5))) < 0"
  unfolding search_net_ok
  by (simp add: transform_gif_record_neg transform_response_def upstream_body_def
      str_nat.simps gif_item_def)

theorem get_random_gif_forces_limit_offset_witness:
  "get_random_gif (default_config ''k'') (net_ok (upstream_body [] 0 0)) (PStr ''cats'')
      [(''limit'', PInt 25), (''offset'', PInt 10)] =
     (Inr \<lparr>success = True, data = None, pagination = None,
           message = ''No GIF found for query'', error = None\<rparr>,
      [HttpGet ''https://api.giphy.com/v1/gifs/search''
         [(''q'', PStr ''cats''), (''limit'', PInt 1), (''offset'', PInt 0),
          (''rating'', PStr ''pg''), (''lang'', PStr ''en''), (''api_key'', PStr ''k'')]]) \<and>
   get_random_gif (default_config ''k'') (net_ok (upstream_body [] 0 0)) (PStr ''cats'')
      [(''limit'', PInt 25), (''offset'', PInt 10)] =
   get_random_gif (default_config ''k'') (net_ok (upstream_body [] 0 0)) (PStr ''cats'') []"
proof -
  note T = get_random_gif_forces_limit_offset [where cfg = "default_config ''k''"
        and net = "net_ok (upstream_body [] 0 0)" and q = "PStr ''cats''"
        and opts = "[(''limit'', PInt 25), (''offset'', PInt 10)]" and opts' = "[]"]
  have k: "\<forall>k. k \<noteq> ''limit'' \<and> k \<noteq> ''offset'' \<longrightarrow>
             map_of [(''limit'', PInt 25), (''offset'', PInt 10)] k
               = map_of ([] :: (string \<times> pyval) list) k"
    by simp
  have a: "get_random_gif (default_config ''k'') (net_ok (upstream_body [] 0 0)) (PStr ''cats'')
      [(''limit'', PInt 25), (''offset'', PInt 10)] =
     (Inr \<lparr>success = True, data = None, pagination = None,
           message = ''No GIF found for query'', error = None\<rparr>,
      [HttpGet ''https://api.giphy.com/v1/gifs/search''
         [(''q'', PStr ''cats''), (''limit'', PInt 1), (''offset'', PInt 0),
          (''rating'', PStr ''pg''), (''lang'', PStr ''en''), (''api_key'', PStr ''k'')]])"
    by (rule T [THEN conjunct2, THEN conjunct2, rule_format])
       (rule conjI, rule search_empty_forced, simp)
  have b: "get_random_gif (default_config ''k'') (net_ok (upstream_body [] 0 0)) (PStr ''cats'')
      [(''limit'', PInt 25), (''offset'', PInt 10)] =
   get_random_gif (default_config ''k'') (net_ok (upstream_body [] 0 0)) (PStr ''cats'') []"
    by (rule T [THEN conjunct2, THEN conjunct1, rule_format]) (simp add: k)
  show ?thesis by (rule conjI [OF a b])
qed

theorem get_random_gif_never_fails_witness:
  "get_random_gif (default_config ''k'') net_refused (PStr ''cats'') [] =
     (Inr \<lparr>success = True, data = None, pagination = None,
           message = ''No GIF found for query'', error = None\<rparr>,
      [HttpGet ''https://api.giphy.com/v1/gifs/search''
         [(''q'', PStr ''cats''), (''limit'', PInt 1), (''offset'', PInt 0),
          (''rating'', PStr ''pg''), (''lang'', PStr ''en''), (''api_key'', PStr ''k'')],
       Sleep 1,
       HttpGet ''https://api.giphy.com/v1/gifs/search''
         [(''q'', PStr ''cats''), (''limit'', PInt 1), (''offset'', PInt 0),
          (''rating'', PStr ''pg''), (''lang'', PStr ''en''), (''api_key'', PStr ''k'')],
       Sleep 2,
       HttpGet ''https://api.giphy.com/v1/gifs/search''
         [(''q'', PStr ''cats''), (''limit'', PInt 1), (''offset'', PInt 0),
          (''rating'', PStr ''pg''), (''lang'', PStr ''en''), (''api_key'', PStr ''k'')]])"
  by (rule get_random_gif_never_fails [THEN conjunct2, rule_format])
     (rule conjI, rule search_refused_forced, simp)

lemma search_empty_default:
  "search_gifs (default_config ''k'') (net_ok (upstream_body [] 0 0)) (PStr ''cats'') [] =
     (Inr \<lparr>success = True, data = Some (Items []),
           pagination = Some \<lparr>total' = PInt 100, count = PInt 0, offset = PInt 0\<rparr>,
           message = ''Found 0 GIFs'', error = None\<rparr>,
      [HttpGet ''https://api.giphy.com/v1/gifs/search''
         [(''q'', PStr ''cats''), (''limit'', PInt 10), (''offset'', PInt 0),
          (''rating'', PStr ''pg''), (''lang'', PStr ''en''), (''api_key'', PStr ''k'')]])"
  by (simp add: search_eval)

lemma search_refused_default:
  "search_gifs (default_config ''k'') net_refused (PStr ''cats'') [] =
     (Inr \<lparr>success = False, data = None, pagination = None, message = [],
           error = Some \<lparr>etype = UNKNOWN_ERROR,
                         message_of = GiphyError_Client (ClientError ''third''),
                         in_method = ''search_gifs''\<rparr>\<rparr>,
      [HttpGet ''https://api.giphy.com/v1/gifs/search''
         [(''q'', PStr ''cats''), (''limit'', PInt 10), (''offset'', PInt 0),
          (''rating'', PStr ''pg''), (''lang'', PStr ''en''), (''api_key'', PStr ''k'')],
       Sleep 1,
       HttpGet ''https://api.giphy.com/v1/gifs/search''
         [(''q'', PStr ''cats''), (''limit'', PInt 10), (''offset'', PInt 0),
          (''rating'', PStr ''pg''), (''lang'', PStr ''en''), (''api_key'', PStr ''k'')],
       Sleep 2,
       HttpGet ''https://api.giphy.com/v1/gifs/search''
         [(''q'', PStr ''cats''), (''limit'', PInt 10), (''offset'', PInt 0),
          (''rating'', PStr ''pg''), (''lang'', PStr ''en''), (''api_key'', PStr ''k'')]])"
  by (simp add: search_eval)

subsection \<open>Clamping of the limit, coercion of numeric strings\<close>

lemma is_digit_plain:
  assumes "is_digit c"
  shows "\<not> is_int_space c" and "c \<noteq> CHR ''_''" and "c \<noteq> CHR ''-''" and "c \<noteq> CHR ''+''"
  using assms by (auto simp: is_digit_def is_int_space_def)

lemma int_strip_digits:
  assumes "s \<noteq> []" and "list_all is_digit s"
  shows "int_strip s = s"
proof -
  from assms obtain c r where s: "s = c # r" and c: "is_digit c"
    by (cases s) auto
  have d1: "dropWhile is_int_space s = s"
    using s c by (simp add: is_digit_plain)
  from assms obtain c' r' where rs: "rev s = c' # r'"
    by (cases "rev s") auto
  then have "c' \<in> set s"
    by (metis list.set_intros(1) set_rev)
  with assms(2) have "is_digit c'"
    by (simp add: list_all_iff)
  then have "dropWhile is_int_space (rev s) = rev s"
    using rs by (simp add: is_digit_plain)
  with d1 show ?thesis by (simp add: int_strip_def)
qed

lemma digit_groups_digits:
  "s \<noteq> [] \<Longrightarrow> list_all is_digit s \<Longrightarrow> digit_groups s"
  by (induction s rule: digit_groups.induct) (auto simp: is_digit_plain)

lemma filter_digits:
  "list_all is_digit s \<Longrightarrow> filter (\<lambda>c. c \<noteq> CHR ''_'') s = s"
  by (induction s) (auto simp: is_digit_plain)

text \<open>\<^verbatim>\<open>int()\<close> of a non-empty string of at most 4300 decimal digits is the number it writes.\<close>

lemma py_int_digits:
  assumes "s \<noteq> []" and "list_all is_digit s" and "length s \<le> int_max_str_digits"
  shows "py_int (PStr s) = Inr (digits_value s)"
proof -
  from assms obtain c r where s: "s = c # r" and c: "is_digit c"
    by (cases s) auto
  have "parse_signed s = parse_unsigned s"
    using c by (simp add: s is_digit_plain)
  also have "\<dots> = Inr (digits_value s)"
    using assms by (simp add: parse_unsigned_def digit_groups_digits filter_digits)
  finally show ?thesis
    by (simp add: int_strip_digits assms)
qed

lemma make_image_fields:
  assumes "make_image images section with_size = Inr im"
  shows "then_exn (image_field images section ''width'' (PInt 0)) py_int = Inr (width im)"
    and "then_exn (image_field images section ''height'' (PInt 0)) py_int = Inr (height im)"
  using assms
  by (auto simp: make_image_def then_exn_def split: sum.splits if_splits)

lemma transform_gif_original:
  assumes "transform_gif (PDict kvs) = Inr g"
  shows "make_image (get_or kvs ''images'' (PDict [])) ''original'' True = Inr (original g)"
  using assms
  by (auto simp: transform_gif_def get_or_def then_exn_def split: sum.splits)

lemma clamped_params:
  assumes "get_or opts ''limit'' (cfg_limit cfg) = PInt n \<and> 50 < n \<or>
           get_or opts ''limit'' (cfg_limit cfg) = PFloat x \<and> int_less_float 50 x"
  shows "search_params_of cfg q opts =
           Inr [(''q'', str_strip q), (''limit'', PInt 50),
                (''offset'', get_or opts ''offset'' (PInt 0)),
                (''rating'', get_or opts ''rating'' (cfg_rating cfg)),
                (''lang'', get_or opts ''lang'' (cfg_lang cfg))]"
  using assms by (auto simp: search_params_of_def)

text \<open>
  C6. A limit above 50 (an int, or a float) is replaced by 50 in the search parameters:
  validation then depends on the offset and the rating only, and every GET of the search
  carries \<open>limit = 50\<close>. And when a record is transformed into an item and upstream sent the
  width and height of its \<^verbatim>\<open>original\<close> section as strings of decimal digits, the item's
  width and height are the integers these strings write.
\<close>

theorem limit_clamped_strings_coerced:
  "((get_or opts ''limit'' (cfg_limit cfg) = PInt n \<and> 50 < n \<or>
     get_or opts ''limit'' (cfg_limit cfg) = PFloat x \<and> int_less_float 50 x) \<longrightarrow>
      (\<exists>ps. search_params_of cfg q opts = Inr ps \<and> map_of ps ''limit'' = Some (PInt 50) \<and>
            validate_search_params ps =
              (if offset_invalid (get_or opts ''offset'' (PInt 0)) then Inl ValueError
               else rating_check (get_or opts ''rating'' (cfg_rating cfg)))) \<and>
      (\<forall>u ps. HttpGet u ps \<in> set (snd (search_gifs cfg net q opts)) \<longrightarrow>
              map_of ps ''limit'' = Some (PInt 50))) \<and>
   (transform_gif (PDict kvs) = Inr g \<and>
    get_or kvs ''images'' (PDict []) = PDict imgs \<and>
    map_of imgs ''original'' = Some (PDict sec) \<and>
    map_of sec ''width'' = Some (PStr w) \<and> map_of sec ''height'' = Some (PStr h) \<and>
    w \<noteq> [] \<and> list_all is_digit w \<and> length w \<le> int_max_str_digits \<and>
    h \<noteq> [] \<and> list_all is_digit h \<and> length h \<le> int_max_str_digits \<longrightarrow>
      width (original g) = digits_value w \<and> height (original g) = digits_value h)"
proof (intro conjI impI)
  assume a: "get_or opts ''limit'' (cfg_limit cfg) = PInt n \<and> 50 < n \<or>
             get_or opts ''limit'' (cfg_limit cfg) = PFloat x \<and> int_less_float 50 x"
  note p = clamped_params [OF a, of q]
  show "\<exists>ps. search_params_of cfg q opts = Inr ps \<and> map_of ps ''limit'' = Some (PInt 50) \<and>
            validate_search_params ps =
              (if offset_invalid (get_or opts ''offset'' (PInt 0)) then Inl ValueError
               else rating_check (get_or opts ''rating'' (cfg_rating cfg)))"
    unfolding p by (simp add: validate_search_params_def get_or_def)
  show "\<forall>u ps. HttpGet u ps \<in> set (snd (search_gifs cfg net q opts)) \<longrightarrow>
              map_of ps ''limit'' = Some (PInt 50)"
  proof (intro allI impI)
    fix u ps assume "HttpGet u ps \<in> set (snd (search_gifs cfg net q opts))"
    from search_gifs_gets [OF this] obtain ps0 where
      "search_params_of cfg q opts = Inr ps0"
      "ps = AList.update ''api_key'' (PStr (api_key cfg)) ps0" by blast
    with p show "map_of ps ''limit'' = Some (PInt 50)"
      by (auto simp: update_conv')
  qed
next
  assume b: "transform_gif (PDict kvs) = Inr g \<and>
    get_or kvs ''images'' (PDict []) = PDict imgs \<and>
    map_of imgs ''original'' = Some (PDict sec) \<and>
    map_of sec ''width'' = Some (PStr w) \<and> map_of sec ''height'' = Some (PStr h) \<and>
    w \<noteq> [] \<and> list_all is_digit w \<and> length w \<le> int_max_str_digits \<and>
    h \<noteq> [] \<and> list_all is_digit h \<and> length h \<le> int_max_str_digits"
  then have m: "make_image (PDict imgs) ''original'' True = Inr (original g)"
    using transform_gif_original [of kvs g] by simp
  have fw: "image_field (PDict imgs) ''original'' ''width'' (PInt 0) = Inr (PStr w)"
    and fh: "image_field (PDict imgs) ''original'' ''height'' (PInt 0) = Inr (PStr h)"
    using b by (simp_all add: image_field_def)
  from make_image_fields [OF m] fw fh
  have "py_int (PStr w) = Inr (width (original g))"
    and "py_int (PStr h) = Inr (height (original g))"
    by simp_all
  moreover have "py_int (PStr w) = Inr (digits_value w)"
    by (rule py_int_digits) (use b in simp_all)
  moreover have "py_int (PStr h) = Inr (digits_value h)"
    by (rule py_int_digits) (use b in simp_all)
  ultimately show "width (original g) = digits_value w" and "height (original g) = digits_value h"
    by simp_all
qed

lemma search_limit_100:
  "search_gifs (default_config ''k'') (net_ok (upstream_body [gif_record (PStr ''480'')] 1 0))
      (PStr ''cats'') [(''limit'', PInt 100)] =
     (Inr \<lparr>success = True, data = Some (Items [gif_item 480]),
           pagination = Some \<lparr>total' = PInt 100, count = PInt 1, offset = PInt 0\<rparr>,
           message = ''Found 1 GIFs'', error = None\<rparr>,
      [HttpGet ''https://api.giphy.com/v1/gifs/search''
         [(''q'', PStr ''cats''), (''limit'', PInt 50), (''offset'', PInt 0),
          (''rating'', PStr ''pg''), (''lang'', PStr ''en''), (''api_key'', PStr ''k'')]])"
  by (simp add: search_eval transform_gif_record_480)

theorem limit_clamped_strings_coerced_witness:
  "search_gifs (default_config ''k'') (net_ok (upstream_body [gif_record (PStr ''480'')] 1 0))
      (PStr ''cats'') [(''limit'', PInt 100)] =
     (Inr \<lparr>success = True, data = Some (Items [gif_item 480]),
           pagination = Some \<lparr>total' = PInt 100, count = PInt 1, offset = PInt 0\<rparr>,
           message = ''Found 1 GIFs'', error = None\<rparr>,
      [HttpGet ''https://api.giphy.com/v1/gifs/search''
         [(''q'', PStr ''cats''), (''limit'', PInt 50), (''offset'', PInt 0),
          (''rating'', PStr ''pg''), (''lang'', PStr ''en''), (''api_key'', PStr ''k'')]]) \<and>
   validate_search_params
     [(''q'', PStr ''cats''), (''limit'', PInt 50), (''offset'', PInt 0),
      (''rating'', PStr ''pg''), (''lang'', PStr ''en'')] = Inr () \<and>
   width (original (gif_item 480)) = 480 \<and> height (original (gif_item 480)) = 270"
proof -
  have h1: "get_or [(''limit'', PInt 100)] ''limit'' (cfg_limit (default_config ''k'')) = PInt 100
              \<and> (50::int) < 100 \<or>
            get_or [(''limit'', PInt 100)] ''limit'' (cfg_limit (default_config ''k'')) = PFloat NaN
              \<and> int_less_float 50 NaN"
    by (simp add: get_or_def)
  from limit_clamped_strings_coerced [THEN conjunct1, rule_format, OF h1,
      where q = "PStr ''cats''"]
  have v: "validate_search_params
     [(''q'', PStr ''cats''), (''limit'', PInt 50), (''offset'', PInt 0),
      (''rating'', PStr ''pg''), (''lang'', PStr ''en'')] = Inr ()"
    by (simp add: search_params_of_def get_or_def default_config_def strip_def is_space_def
        valid_ratings_def)
  have h2: "transform_gif (PDict (record_fields (PStr ''480''))) = Inr (gif_item 480)"
    using transform_gif_record_480 by (simp add: gif_record_def)
  have w: "width (original (gif_item 480)) = digits_value ''480'' \<and>
           height (original (gif_item 480)) = digits_value ''270''"
    by (rule limit_clamped_strings_coerced [THEN conjunct2, rule_format,
          where kvs = "record_fields (PStr ''480'')" and imgs = "images_of (PStr ''480'')"
            and sec = "original_section (PStr ''480'')"])
       (intro conjI, rule h2,
        simp_all add: get_or_def is_digit_def int_max_str_digits_def record_fields_def
          images_of_def original_section_def)
  then have "width (original (gif_item 480)) = 480 \<and> height (original (gif_item 480)) = 270"
    by (simp add: digits_value_def)
  with v search_limit_100 show ?thesis
    by blast
qed

subsection \<open>What an envelope holds\<close>

lemma request_loop_ok:
  assumes "request_loop cfg net u ps as last_error tr = (Inr d, tr')"
  shows "\<exists>a\<in>set as. attempt_body (net a) = Inr d"
  using assms
proof (induction as arbitrary: last_error tr)
  case Nil
  then show ?case by (simp split: option.splits)
next
  case (Cons x xs)
  show ?case
  proof (cases "attempt_body (net x)")
    case (Inl e)
    with Cons.prems have "\<exists>a\<in>set xs. attempt_body (net a) = Inr d"
      by (auto intro: Cons.IH split: if_splits)
    then show ?thesis by auto
  next
    case (Inr d')
    with Cons.prems show ?thesis by auto
  qed
qed

lemma transform_loop_items:
  assumes "transform_loop recs gifs = Inr gs"
  shows "\<forall>g\<in>set gs. g \<in> set gifs \<or> (\<exists>rec\<in>set recs. transform_gif rec = Inr g)"
  using assms
proof (induction recs arbitrary: gifs)
  case Nil
  then show ?case by simp
next
  case (Cons x xs)
  show ?case
  proof (cases "transform_gif x")
    case (Inl e)
    with Cons.prems have "transform_loop xs gifs = Inr gs"
      by (simp split: if_splits)
    from Cons.IH [OF this] show ?thesis by auto
  next
    case (Inr g')
    with Cons.prems have "transform_loop xs (gifs @ [g']) = Inr gs"
      by simp
    from Cons.IH [OF this] Inr show ?thesis by auto
  qed
qed

lemma transform_response_shape:
  assumes "transform_response d = Inr r"
  shows "\<exists>recs gs pg t c off.
     then_exn (py_get d ''data'' (PList [])) py_iter = Inr recs \<and>
     transform_loop recs [] = Inr gs \<and>
     py_get d ''pagination'' (PDict []) = Inr pg \<and>
     py_get pg ''total_count'' (PInt 0) = Inr t \<and>
     py_get pg ''count'' (PInt 0) = Inr c \<and>
     py_get pg ''offset'' (PInt 0) = Inr off \<and>
     r = \<lparr>success = True, data = Some (Items gs),
          pagination = Some \<lparr>total' = t, count = c, offset = off\<rparr>,
          message = ''Found '' @ str_nat (length gs) @ '' GIFs'', error = None\<rparr>"
  using assms
  by (auto simp: transform_response_def then_exn_def split: sum.splits)

lemma search_gifs_success:
  assumes "search_gifs cfg net q opts = (Inr r, tr)" and "success r"
  shows "\<exists>a d. attempt_body (net a) = Inr d \<and> transform_response d = Inr r"
proof -
  from assms obtain ps d where
    m: "make_request cfg net ''/search'' ps = (Inr d, tr)" and t: "transform_response d = Inr r"
    by (auto simp: search_gifs_def handle_error_def split: if_splits sum.splits prod.splits)
  from m request_loop_ok obtain a where "attempt_body (net a) = Inr d"
    unfolding make_request_def by blast
  with t show ?thesis by blast
qed

lemma make_image_size:
  assumes "make_image images section with_size = Inr im"
  shows "(if with_size then then_exn (image_field images section ''size'' (PInt 0)) py_int
          else Inr 0) = Inr (size' im)"
  using assms
  by (auto simp: make_image_def then_exn_def split: sum.splits if_splits)

lemma transform_gif_images:
  assumes "transform_gif rec = Inr g"
  shows "\<exists>images. py_get rec ''images'' (PDict []) = Inr images \<and>
           make_image images ''original'' True = Inr (original g) \<and>
           make_image images ''fixed_height_small'' False = Inr (preview g) \<and>
           make_image images ''fixed_height_small_still'' False = Inr (thumbnail g)"
  using assms
  by (auto simp: transform_gif_def then_exn_def split: sum.splits)

text \<open>
  C9, amended. A failure envelope of \<open>search_gifs\<close> carries no data and no page
  information, a success envelope carries no error. In a success, every item is the
  transform of a record of the body some attempt returned, and the offset of the page is
  that body's \<^verbatim>\<open>pagination.offset\<close> as it came (0 when absent). The width, height and size
  of an item's images are \<^verbatim>\<open>int()\<close> of upstream's fields (0 when the field or its section
  is absent, and size 0 for preview and thumbnail). An envelope of \<open>get_random_gif\<close> is a
  success without error whose payload, when there is one, is the first item of the delegated
  search. Nothing bounds these integers or the offset from below.
\<close>

theorem search_envelope_contents:
  "(search_gifs cfg net q opts = (Inr r, tr) \<longrightarrow>
      (if success r
       then error r = None \<and>
            (\<exists>a d recs gs pg t c off.
               attempt_body (net a) = Inr d \<and>
               then_exn (py_get d ''data'' (PList [])) py_iter = Inr recs \<and>
               data r = Some (Items gs) \<and>
               (\<forall>g\<in>set gs. \<exists>rec\<in>set recs. transform_gif rec = Inr g) \<and>
               py_get d ''pagination'' (PDict []) = Inr pg \<and>
               py_get pg ''offset'' (PInt 0) = Inr off \<and>
               pagination r = Some \<lparr>total' = t, count = c, offset = off\<rparr>)
       else data r = None \<and> pagination r = None \<and>
            (\<exists>e. error r = Some \<lparr>etype = error_type_of e, message_of = e,
                                  in_method = ''search_gifs''\<rparr>))) \<and>
   (transform_gif rec = Inr g \<longrightarrow>
      (\<exists>images. py_get rec ''images'' (PDict []) = Inr images \<and>
         then_exn (image_field images ''original'' ''width'' (PInt 0)) py_int
           = Inr (width (original g)) \<and>
         then_exn (image_field images ''original'' ''height'' (PInt 0)) py_int
           = Inr (height (original g)) \<and>
         then_exn (image_field images ''original'' ''size'' (PInt 0)) py_int
           = Inr (size' (original g)) \<and>
         then_exn (image_field images ''fixed_height_small'' ''width'' (PInt 0)) py_int
           = Inr (width (preview g)) \<and>
         then_exn (image_field images ''fixed_height_small'' ''height'' (PInt 0)) py_int
           = Inr (height (preview g)) \<and>
         size' (preview g) = 0 \<and>
         then_exn (image_field images ''fixed_height_small_still'' ''width'' (PInt 0)) py_int
           = Inr (width (thumbnail g)) \<and>
         then_exn (image_field images ''fixed_height_small_still'' ''height'' (PInt 0)) py_int
           = Inr (height (thumbnail g)) \<and>
         size' (thumbnail g) = 0)) \<and>
   (get_random_gif cfg net q opts = (Inr r', tr') \<longrightarrow>
      success r' \<and> error r' = None \<and>
      (data r' = None \<or>
       (\<exists>r0 g gs.
          search_gifs cfg net q
            (AList.update ''offset'' (PInt 0) (AList.update ''limit'' (PInt 1) opts))
            = (Inr r0, tr') \<and>
          success r0 \<and> data r0 = Some (Items (g # gs)) \<and> data r' = Some (Single g))))"
proof -
  have A: "if success r
       then error r = None \<and>
            (\<exists>a d recs gs pg t c off.
               attempt_body (net a) = Inr d \<and>
               then_exn (py_get d ''data'' (PList [])) py_iter = Inr recs \<and>
               data r = Some (Items gs) \<and>
               (\<forall>g\<in>set gs. \<exists>rec\<in>set recs. transform_gif rec = Inr g) \<and>
               py_get d ''pagination'' (PDict []) = Inr pg \<and>
               py_get pg ''offset'' (PInt 0) = Inr off \<and>
               pagination r = Some \<lparr>total' = t, count = c, offset = off\<rparr>)
       else data r = None \<and> pagination r = None \<and>
            (\<exists>e. error r = Some \<lparr>etype = error_type_of e, message_of = e,
                                  in_method = ''search_gifs''\<rparr>)"
    if a: "search_gifs cfg net q opts = (Inr r, tr)"
  proof (cases "success r")
    case True
    from search_gifs_success [OF a True] obtain a0 d where
      d: "attempt_body (net a0) = Inr d" "transform_response d = Inr r" by blast
    from transform_response_shape [OF d(2)] obtain recs gs pg t c off where
      s: "then_exn (py_get d ''data'' (PList [])) py_iter = Inr recs"
        "transform_loop recs [] = Inr gs"
        "py_get d ''pagination'' (PDict []) = Inr pg"
        "py_get pg ''offset'' (PInt 0) = Inr off"
        "r = \<lparr>success = True, data = Some (Items gs),
              pagination = Some \<lparr>total' = t, count = c, offset = off\<rparr>,
              message = ''Found '' @ str_nat (length gs) @ '' GIFs'', error = None\<rparr>"
      by blast
    from transform_loop_items [OF s(2)]
    have i: "\<forall>g\<in>set gs. \<exists>rec\<in>set recs. transform_gif rec = Inr g" by simp
    have e: "error r = None" and dr: "data r = Some (Items gs)"
      and p: "pagination r = Some \<lparr>total' = t, count = c, offset = off\<rparr>"
      by (simp_all add: s(5))
    from d(1) s(1,3,4) i e dr p True show ?thesis by auto
  next
    case False
    from a False obtain e where "r = handle_error e ''search_gifs''"
      by (auto simp: search_gifs_def transform_response_def then_exn_def
          split: if_splits sum.splits prod.splits)
    with False show ?thesis by (simp add: handle_error_def)
  qed
  have B: "\<exists>images. py_get rec ''images'' (PDict []) = Inr images \<and>
         then_exn (image_field images ''original'' ''width'' (PInt 0)) py_int
           = Inr (width (original g)) \<and>
         then_exn (image_field images ''original'' ''height'' (PInt 0)) py_int
           = Inr (height (original g)) \<and>
         then_exn (image_field images ''original'' ''size'' (PInt 0)) py_int
           = Inr (size' (original g)) \<and>
         then_exn (image_field images ''fixed_height_small'' ''width'' (PInt 0)) py_int
           = Inr (width (preview g)) \<and>
         then_exn (image_field images ''fixed_height_small'' ''height'' (PInt 0)) py_int
           = Inr (height (preview g)) \<and>
         size' (preview g) = 0 \<and>
         then_exn (image_field images ''fixed_height_small_still'' ''width'' (PInt 0)) py_int
           = Inr (width (thumbnail g)) \<and>
         then_exn (image_field images ''fixed_height_small_still'' ''height'' (PInt 0)) py_int
           = Inr (height (thumbnail g)) \<and>
         size' (thumbnail g) = 0"
    if b: "transform_gif rec = Inr g"
  proof -
    from transform_gif_images [OF b] obtain images where
      im: "py_get rec ''images'' (PDict []) = Inr images"
        "make_image images ''original'' True = Inr (original g)"
        "make_image images ''fixed_height_small'' False = Inr (preview g)"
        "make_image images ''fixed_height_small_still'' False = Inr (thumbnail g)"
      by blast
    show ?thesis
      using im(1) make_image_fields [OF im(2)] make_image_size [OF im(2)]
        make_image_fields [OF im(3)] make_image_size [OF im(3)]
        make_image_fields [OF im(4)] make_image_size [OF im(4)]
      by (intro exI [of _ images]) simp
  qed
  have C: "success r' \<and> error r' = None \<and>
      (data r' = None \<or>
       (\<exists>r0 g gs.
          search_gifs cfg net q
            (AList.update ''offset'' (PInt 0) (AList.update ''limit'' (PInt 1) opts))
            = (Inr r0, tr') \<and>
          success r0 \<and> data r0 = Some (Items (g # gs)) \<and> data r' = Some (Single g)))"
    if c: "get_random_gif cfg net q opts = (Inr r', tr')"
  proof -
    let ?s = "search_gifs cfg net q
            (AList.update ''offset'' (PInt 0) (AList.update ''limit'' (PInt 1) opts))"
    from c obtain r0 where s0: "?s = (Inr r0, tr')"
      by (auto simp: get_random_gif_def split: prod.splits sum.splits if_splits)
    show ?thesis
    proof (cases "success r0 \<and> truthy (data r0)")
      case False
      with c s0 show ?thesis by (auto simp: get_random_gif_def)
    next
      case True
      from search_gifs_success [OF s0] True obtain a d where
        "transform_response d = Inr r0" by blast
      from transform_response_shape [OF this] obtain gs where
        "data r0 = Some (Items gs)" by auto
      with True obtain g gs' where g: "data r0 = Some (Items (g # gs'))"
        by (cases gs) auto
      with c s0 True have "r' = \<lparr>success = True, data = Some (Single g), pagination = None,
                        message = ''GIF found'', error = None\<rparr>"
        by (auto simp: get_random_gif_def)
      with s0 True g show ?thesis by auto
    qed
  qed
  show ?thesis
    using A B C by blast
qed

lemma search_one_default:
  "search_gifs (default_config ''k'') (net_ok (upstream_body [gif_record (PStr ''480'')] 1 0))
      (PStr ''cats'') [] =
     (Inr \<lparr>success = True, data = Some (Items [gif_item 480]),
           pagination = Some \<lparr>total' = PInt 100, count = PInt 1, offset = PInt 0\<rparr>,
           message = ''Found 1 GIFs'', error = None\<rparr>,
      [HttpGet ''https://api.giphy.com/v1/gifs/search''
         [(''q'', PStr ''cats''), (''limit'', PInt 10), (''offset'', PInt 0),
          (''rating'', PStr ''pg''), (''lang'', PStr ''en''), (''api_key'', PStr ''k'')]])"
  by (simp add: search_eval transform_gif_record_480)

lemma get_random_refused:
  "get_random_gif (default_config ''k'') net_refused (PStr ''cats'') [] =
     (Inr \<lparr>success = True, data = None, pagination = None,
           message = ''No GIF found for query'', error = None\<rparr>,
      [HttpGet ''https://api.giphy.com/v1/gifs/search''
         [(''q'', PStr ''cats''), (''limit'', PInt 1), (''offset'', PInt 0),
          (''rating'', PStr ''pg''), (''lang'', PStr ''en''), (''api_key'', PStr ''k'')],
       Sleep 1,
       HttpGet ''https://api.giphy.com/v1/gifs/search''
         [(''q'', PStr ''cats''), (''limit'', PInt 1), (''offset'', PInt 0),
          (''rating'', PStr ''pg''), (''lang'', PStr ''en''), (''api_key'', PStr ''k'')],
       Sleep 2,
       HttpGet ''https://api.giphy.com/v1/gifs/search''
         [(''q'', PStr ''cats''), (''limit'', PInt 1), (''offset'', PInt 0),
          (''rating'', PStr ''pg''), (''lang'', PStr ''en''), (''api_key'', PStr ''k'')]])"
  unfolding get_random_gif_def Let_def search_refused_forced by simp

theorem search_envelope_contents_witness:
  "error \<lparr>success = True, data = Some (Items [gif_item 480]),
           pagination = Some \<lparr>total' = PInt 100, count = PInt 1, offset = PInt 0\<rparr>,
           message = ''Found 1 GIFs'', error = None\<rparr> = None \<and>
   data \<lparr>success = False, data = None, pagination = None, message = [],
           error = Some \<lparr>etype = UNKNOWN_ERROR,
                         message_of = GiphyError_Client (ClientError ''third''),
                         in_method = ''search_gifs''\<rparr>\<rparr> = None \<and>
   width (original (gif_item 480)) = 480 \<and>
   success \<lparr>success = True, data = None, pagination = None,
           message = ''No GIF found for query'', error = None\<rparr> \<and>
   fst (search_gifs (default_config ''k'') (net_ok (upstream_body [gif_record (PStr ''480'')] 1 0))
      (PStr ''cats'') []) =
     Inr \<lparr>success = True, data = Some (Items [gif_item 480]),
           pagination = Some \<lparr>total' = PInt 100, count = PInt 1, offset = PInt 0\<rparr>,
           message = ''Found 1 GIFs'', error = None\<rparr> \<and>
   fst (search_gifs (default_config ''k'') net_refused (PStr ''cats'') []) =
     Inr \<lparr>success = False, data = None, pagination = None, message = [],
           error = Some \<lparr>etype = UNKNOWN_ERROR,
                         message_of = GiphyError_Client (ClientError ''third''),
                         in_method = ''search_gifs''\<rparr>\<rparr> \<and>
   transform_gif (gif_record (PStr ''480'')) = Inr (gif_item 480)"
proof -
  note A = search_envelope_contents [THEN conjunct1, rule_format, OF search_one_default]
  note B = search_envelope_contents [THEN conjunct1, rule_format, OF search_refused_default]
  note C = search_envelope_contents [THEN conjunct2, THEN conjunct1, rule_format,
      OF transform_gif_record_480]
  note D = search_envelope_contents [THEN conjunct2, THEN conjunct2, rule_format,
      OF get_random_refused]
  have a: "error \<lparr>success = True, data = Some (Items [gif_item 480]),
           pagination = Some \<lparr>total' = PInt 100, count = PInt 1, offset = PInt 0\<rparr>,
           message = ''Found 1 GIFs'', error = None\<rparr> = None"
    using A by simp
  have b: "data \<lparr>success = False, data = None, pagination = None, message = [],
           error = Some \<lparr>etype = UNKNOWN_ERROR,
                         message_of = GiphyError_Client (ClientError ''third''),
                         in_method = ''search_gifs''\<rparr>\<rparr> = None"
    using B by simp
  have c: "width (original (gif_item 480)) = 480"
    using C by (auto simp: gif_record_defs image_field_def py_int_defs)
  have d: "success \<lparr>success = True, data = None, pagination = None,
           message = ''No GIF found for query'', error = None\<rparr>"
    using D by simp
  show ?thesis
    using a b c d
    by (simp add: search_one_default search_refused_default transform_gif_record_480)
qed

text \<open>
  C8. When the image sections are missing because \<^verbatim>\<open>images\<close>, or the section itself, is
  JSON \<^verbatim>\<open>null\<close>, no item with empty images is produced: \<^verbatim>\<open>.get\<close> on \<^verbatim>\<open>None\<close> raises an
  AttributeError, the loop's \<^verbatim>\<open>except (ValueError, KeyError)\<close> does not catch it, and the
  whole search becomes a failure of kind \<open>UNKNOWN_ERROR\<close>.
\<close>

theorem search_null_images_fails:
  "fst (search_gifs (default_config ''k'') (net_ok (upstream_body [record_null_images] 1 0))
          (PStr ''cats'') []) =
     Inr \<lparr>success = False, data = None, pagination = None, message = [],
          error = Some \<lparr>etype = UNKNOWN_ERROR, message_of = AttributeError,
                        in_method = ''search_gifs''\<rparr>\<rparr> \<and>
   fst (search_gifs (default_config ''k'') (net_ok (upstream_body [record_null_original] 1 0))
          (PStr ''cats'') []) =
     Inr \<lparr>success = False, data = None, pagination = None, message = [],
          error = Some \<lparr>etype = UNKNOWN_ERROR, message_of = AttributeError,
                        in_method = ''search_gifs''\<rparr>\<rparr>"
  unfolding search_net_ok
  by (simp add: transform_response_def upstream_body_def handle_error_def transform_gif_def
      make_image_def image_field_def record_null_images_def record_null_original_def)

text \<open>
  Section by section: in any record that is transformed into an item, each section that is
  absent from the \<^verbatim>\<open>images\<close> dict gives the image with empty URL and zeros.
\<close>

lemma missing_section_default:
  assumes "transform_gif (PDict kvs) = Inr g"
    and "get_or kvs ''images'' (PDict []) = PDict imgs"
  shows "(map_of imgs ''original'' = None \<longrightarrow>
            original g = \<lparr>url = PStr [], width = 0, height = 0, size' = 0\<rparr>) \<and>
         (map_of imgs ''fixed_height_small'' = None \<longrightarrow>
            preview g = \<lparr>url = PStr [], width = 0, height = 0, size' = 0\<rparr>) \<and>
         (map_of imgs ''fixed_height_small_still'' = None \<longrightarrow>
            thumbnail g = \<lparr>url = PStr [], width = 0, height = 0, size' = 0\<rparr>)"
proof -
  from transform_gif_images [OF assms(1)] assms(2)
  have "make_image (PDict imgs) ''original'' True = Inr (original g)"
    and "make_image (PDict imgs) ''fixed_height_small'' False = Inr (preview g)"
    and "make_image (PDict imgs) ''fixed_height_small_still'' False = Inr (thumbnail g)"
    by (auto simp: get_or_def)
  then show ?thesis
    by (auto simp: make_image_missing)
qed

end
